theory Spec2Isabelle
  imports Complex_Main
begin

section \<open>Go values used by waveloggoat.go\<close>

text \<open>
  A Go \<^verbatim>\<open>float64\<close> is either a finite number, one of the two infinities, or NaN.
  The finite numbers are modelled by the reals they denote (the program performs no
  floating-point arithmetic: it parses, compares, converts to \<^verbatim>\<open>int\<close> and prints).
  The two zeros of IEEE 754 are one value here; Go's \<^verbatim>\<open>==\<close> does not tell them apart.
\<close>

datatype float64 = Finite real | PosInf | NegInf | NaN

text \<open>Go's \<^verbatim>\<open>==\<close> on \<^verbatim>\<open>float64\<close>: IEEE 754 comparison, under which NaN equals nothing.\<close>

definition float64_eq :: "float64 \<Rightarrow> float64 \<Rightarrow> bool" where
  "float64_eq a b = (a \<noteq> NaN \<and> b \<noteq> NaN \<and> a = b)"

text \<open>
  An \<^verbatim>\<open>error\<close> value: one made by the environment or by \<^verbatim>\<open>fmt.Errorf\<close> without
  \<^verbatim>\<open>%w\<close> (its message), or one that wraps another with \<^verbatim>\<open>fmt.Errorf("...: %w", err)\<close>
  (the prefix and the wrapped error). The formatted arguments of a message are left out.
\<close>

datatype error = Cause string | Wrapped string error

section \<open>RigData\<close>

record RigData =
  FreqVFOA :: float64
  FreqVFOB :: float64
  Mode :: string
  ModeB :: string
  Split :: int
  Power :: float64

text \<open>The zero value \<^verbatim>\<open>RigData{}\<close>, which is also what \<^verbatim>\<open>var lastData RigData\<close> holds.\<close>

definition RigData_zero :: RigData where
  "RigData_zero =
     \<lparr>FreqVFOA = Finite 0, FreqVFOB = Finite 0, Mode = [], ModeB = [], Split = 0,
      Power = Finite 0\<rparr>"

text \<open>
  Go's \<^verbatim>\<open>==\<close> on two \<^verbatim>\<open>RigData\<close> structs: the fields are compared one by one, in
  order, each with the \<^verbatim>\<open>==\<close> of its type.
\<close>

definition RigData_eq :: "RigData \<Rightarrow> RigData \<Rightarrow> bool" where
  "RigData_eq a b =
     (float64_eq (FreqVFOA a) (FreqVFOA b) \<and> float64_eq (FreqVFOB a) (FreqVFOB b) \<and>
      Mode a = Mode b \<and> ModeB a = ModeB b \<and> Split a = Split b \<and>
      float64_eq (Power a) (Power b))"

section \<open>The change gate\<close>

text \<open>
  The test of the poll loop, \<^verbatim>\<open>if currentData == lastData { ...; continue }\<close>
  (waveloggoat.go, line 484): skip when the two structs compare equal, go on to post
  otherwise.
\<close>

datatype decision = Forward | Skip

definition ChangeGate :: "RigData \<Rightarrow> RigData \<Rightarrow> decision" where
  "ChangeGate lastData currentData =
     (if RigData_eq currentData lastData then Skip else Forward)"

text \<open>A snapshot none of whose three numeric fields is NaN.\<close>

definition no_NaN :: "RigData \<Rightarrow> bool" where
  "no_NaN d = (FreqVFOA d \<noteq> NaN \<and> FreqVFOB d \<noteq> NaN \<and> Power d \<noteq> NaN)"

section \<open>The standard library and the platform\<close>

text \<open>
  The program calls \<^verbatim>\<open>strconv.ParseFloat\<close>, \<^verbatim>\<open>strings.Fields\<close>,
  \<^verbatim>\<open>strings.ToLower\<close> and \<^verbatim>\<open>time.ParseDuration\<close>. They are not part of
  the repository, so the model takes them as parameters and every theorem holds for
  whatever functions they are. \<^verbatim>\<open>ParseDuration\<close> gives nanoseconds.
  \<^verbatim>\<open>int_unrepresentable\<close> is the value a conversion \<^verbatim>\<open>int(f)\<close> yields when
  \<^verbatim>\<open>f\<close> has no \<^verbatim>\<open>int\<close> value (NaN, an infinity, a number out of range): the language leaves
  it to the implementation.
\<close>

record stdlib =
  ParseFloat :: "string \<Rightarrow> error + float64"
  Fields :: "string \<Rightarrow> string list"
  ToLower :: "string \<Rightarrow> string"
  ParseDuration :: "string \<Rightarrow> error + int"
  int_unrepresentable :: "float64 \<Rightarrow> int"

text \<open>Rounding toward zero: the fraction is discarded.\<close>

definition truncate_real :: "real \<Rightarrow> int" where
  "truncate_real r = (if 0 \<le> r then \<lfloor>r\<rfloor> else \<lceil>r\<rceil>)"

text \<open>
  The conversion \<^verbatim>\<open>int(f)\<close> of a \<^verbatim>\<open>float64\<close>, with \<^verbatim>\<open>int\<close> 64 bits wide (the
  64-bit targets): truncation toward zero when the result is an \<^verbatim>\<open>int\<close>, and the
  implementation's value otherwise.
\<close>

definition go_int :: "stdlib \<Rightarrow> float64 \<Rightarrow> int" where
  "go_int lib f =
     (case f of
        Finite r \<Rightarrow>
          if - (2 ^ 63) \<le> truncate_real r \<and> truncate_real r < 2 ^ 63 then truncate_real r
          else int_unrepresentable lib f
      | _ \<Rightarrow> int_unrepresentable lib f)"

text \<open>\<^verbatim>\<open>float64(n)\<close> of an \<^verbatim>\<open>int\<close>, taken as exact (it is for \<open>|n| \<le> 2^53\<close>).\<close>

definition float64_of_int :: "int \<Rightarrow> float64" where
  "float64_of_int n = Finite (of_int n)"

section \<open>The two radio sources\<close>

text \<open>
  What flrig answers during one call of \<^verbatim>\<open>FlrigClient.GetData\<close>: whether
  \<^verbatim>\<open>xmlrpc.NewClient\<close> fails, and for each remote procedure the error of
  \<^verbatim>\<open>client.Call\<close> or the value it stores in the reply variable. Host and port of
  the client select the daemon, that is, these answers.
\<close>

record flrig_io =
  NewClient :: "error option"
  rig_get_vfo :: "error + string"
  rig_get_mode :: "error + string"
  rig_get_power :: "error + int"
  rig_get_split :: "error + int"
  rig_get_vfoB :: "error + string"
  rig_get_modeB :: "error + string"

text \<open>
  \<^verbatim>\<open>FlrigClient.GetData\<close> (lines 142 to 193). The result is the pair the Go function
  returns: the data and the error (\<open>None\<close> for \<^verbatim>\<open>nil\<close>).
\<close>

definition FlrigClient_GetData :: "stdlib \<Rightarrow> flrig_io \<Rightarrow> RigData \<times> error option" where
  "FlrigClient_GetData lib rpc =
     (case NewClient rpc of
        Some err \<Rightarrow> (RigData_zero, Some err)
      | None \<Rightarrow>
     (case rig_get_vfo rpc of
        Inl err \<Rightarrow> (RigData_zero, Some (Wrapped ''call failed to rig.get_vfo'' err))
      | Inr vfoA \<Rightarrow>
     (case ParseFloat lib vfoA of
        Inl err \<Rightarrow> (RigData_zero, Some err)
      | Inr freqA \<Rightarrow>
     (case rig_get_mode rpc of
        Inl err \<Rightarrow> (RigData_zero, Some (Wrapped ''call failed to rig.get_mode'' err))
      | Inr mode \<Rightarrow>
     (let power = (case rig_get_power rpc of Inl err \<Rightarrow> 0 | Inr p \<Rightarrow> p);
          split = (case rig_get_split rpc of Inl err \<Rightarrow> 0 | Inr sp \<Rightarrow> sp);
          vfoB = (case rig_get_vfoB rpc of Inl err \<Rightarrow> vfoA | Inr v \<Rightarrow> v)
      in case ParseFloat lib vfoB of
           Inl err \<Rightarrow> (RigData_zero, Some err)
         | Inr freqB \<Rightarrow>
             (let modeB = (case rig_get_modeB rpc of Inl err \<Rightarrow> mode | Inr m \<Rightarrow> m)
              in (\<lparr>FreqVFOA = freqA, FreqVFOB = freqB, Mode = mode, ModeB = modeB,
                   Split = split, Power = float64_of_int power\<rparr>, None)))))))"

text \<open>
  What rigctld does during one call of \<^verbatim>\<open>HamlibClient.GetData\<close>: whether
  \<^verbatim>\<open>net.Dial\<close> fails, whether each \<^verbatim>\<open>Fprintf\<close> of a command fails, and what
  each \<^verbatim>\<open>ReadLine\<close> returns (an error or the line).
\<close>

record hamlib_io =
  Dial :: "error option"
  send_f :: "error option"
  read_f :: "error + string"
  send_m :: "error option"
  read_m :: "error + string"
  send_P :: "error option"
  read_P :: "error + string"

text \<open>\<^verbatim>\<open>HamlibClient.GetData\<close> (lines 198 to 264).\<close>

definition HamlibClient_GetData :: "stdlib \<Rightarrow> hamlib_io \<Rightarrow> RigData \<times> error option" where
  "HamlibClient_GetData lib conn =
     (case Dial conn of
        Some err \<Rightarrow> (RigData_zero, Some (Wrapped ''hamlib connection error'' err))
      | None \<Rightarrow>
     (case send_f conn of
        Some err \<Rightarrow>
          (RigData_zero, Some (Wrapped ''failed to send f command to hamlib'' err))
      | None \<Rightarrow>
     (case read_f conn of
        Inl err \<Rightarrow>
          (RigData_zero, Some (Wrapped ''failed to read frequency response from hamlib'' err))
      | Inr freqStr \<Rightarrow>
     (case ParseFloat lib freqStr of
        Inl err \<Rightarrow> (RigData_zero, Some (Wrapped ''failed to parse frequency'' err))
      | Inr freqA \<Rightarrow>
     (case send_m conn of
        Some err \<Rightarrow>
          (RigData_zero, Some (Wrapped ''failed to send m command to hamlib'' err))
      | None \<Rightarrow>
     (case read_m conn of
        Inl err \<Rightarrow>
          (RigData_zero, Some (Wrapped ''failed to read mode response from hamlib'' err))
      | Inr modeResp \<Rightarrow>
     (case Fields lib modeResp of
        [] \<Rightarrow> (RigData_zero, Some (Cause ''invalid mode response format from hamlib''))
      | mode # bandwidth \<Rightarrow>
     (let power =
        (case send_P conn of
           Some err \<Rightarrow> Finite 0
         | None \<Rightarrow>
             (case read_P conn of
                Inl err \<Rightarrow> Finite 0
              | Inr powerStr \<Rightarrow>
                  (case ParseFloat lib powerStr of
                     Inl err \<Rightarrow> Finite 0
                   | Inr powerPercent \<Rightarrow> powerPercent)))
      in (\<lparr>FreqVFOA = freqA, FreqVFOB = freqA, Mode = mode, ModeB = mode, Split = 0,
           Power = power\<rparr>, None)))))))))"

text \<open>
  The interface \<^verbatim>\<open>RadioClient\<close> has the two implementations; each holds host and
  port. One tick of the poll loop meets the answers of the daemon it talks to.
\<close>

datatype RadioClient = FlrigClient string int | HamlibClient string int

record radio_io =
  flrig :: flrig_io
  hamlib :: hamlib_io

definition GetData :: "stdlib \<Rightarrow> RadioClient \<Rightarrow> radio_io \<Rightarrow> RigData \<times> error option" where
  "GetData lib client radio =
     (case client of
        FlrigClient host port \<Rightarrow> FlrigClient_GetData lib (flrig radio)
      | HamlibClient host port \<Rightarrow> HamlibClient_GetData lib (hamlib radio))"

section \<open>Configuration and the request to Wavelog\<close>

record ProfileConfig =
  WavelogURL :: string
  WavelogKey :: string
  RadioName :: string
  FlrigHost :: string
  FlrigPort :: int
  HamlibHost :: string
  HamlibPort :: int
  Interval :: string
  DataSource :: string
  LogLevel :: string

text \<open>
  \<^verbatim>\<open>WavelogJSONRequest\<close>. The fields \<^verbatim>\<open>Power\<close> and \<^verbatim>\<open>Mode\<close> carry a suffix
  here, since \<^verbatim>\<open>RigData\<close> has fields of the same names.
\<close>

record WavelogJSONRequest =
  Key :: string
  Radio :: string
  Power_req :: float64
  Frequency :: int
  Mode_req :: string
  FrequencyRX :: int
  ModeRX :: string

text \<open>
  A JSON object as \<^verbatim>\<open>json.Marshal\<close> emits it for a struct: the members in the order
  of the struct's fields, each under the name of its \<^verbatim>\<open>json\<close> tag. The text of the
  encoding (escapes, number formatting) is below this model.
\<close>

datatype json = JString string | JInt int | JFloat real

type_synonym json_object = "(string \<times> json) list"

text \<open>
  \<^verbatim>\<open>json.Marshal(payload)\<close> for a \<^verbatim>\<open>WavelogJSONRequest\<close>. A \<^verbatim>\<open>float64\<close> that is NaN
  or infinite is an unsupported value, and the call fails. A field tagged
  \<^verbatim>\<open>omitempty\<close> is left out when it holds the zero value of its type.
\<close>

definition Marshal :: "WavelogJSONRequest \<Rightarrow> error + json_object" where
  "Marshal payload =
     (case Power_req payload of
        Finite w \<Rightarrow>
          Inr ([(''key'', JString (Key payload)),
                (''radio'', JString (Radio payload)),
                (''power'', JFloat w),
                (''frequency'', JInt (Frequency payload)),
                (''mode'', JString (Mode_req payload))] @
               (if FrequencyRX payload = 0 then []
                else [(''frequency_rx'', JInt (FrequencyRX payload))]) @
               (if ModeRX payload = [] then []
                else [(''mode_rx'', JString (ModeRX payload))]))
      | _ \<Rightarrow> Inl (Cause ''json: unsupported value''))"

text \<open>The payload that \<^verbatim>\<open>postToWavelog\<close> builds (lines 267 to 279).\<close>

definition payload_of :: "stdlib \<Rightarrow> ProfileConfig \<Rightarrow> RigData \<Rightarrow> WavelogJSONRequest" where
  "payload_of lib config data =
     (let payload =
        \<lparr>Key = WavelogKey config, Radio = RadioName config, Power_req = Power data,
         Frequency = go_int lib (FreqVFOA data), Mode_req = Mode data,
         FrequencyRX = 0, ModeRX = []\<rparr>
      in if Split data \<noteq> 0
         then payload\<lparr>Frequency := go_int lib (FreqVFOB data), Mode_req := ModeB data,
                     FrequencyRX := go_int lib (FreqVFOA data), ModeRX := Mode data\<rparr>
         else payload)"

text \<open>
  What the network does with one call of \<^verbatim>\<open>postToWavelog\<close>: whether
  \<^verbatim>\<open>http.NewRequest\<close> fails, and what \<^verbatim>\<open>client.Do\<close> returns (an error, the
  10 second timeout among them, or the status code and body of the response).
\<close>

record http_io =
  NewRequest :: "error option"
  client_Do :: "error + int \<times> string"

record http_request =
  req_url :: string
  req_body :: json_object

text \<open>
  \<^verbatim>\<open>postToWavelog\<close>: the request handed to \<^verbatim>\<open>client.Do\<close> (none when the function
  returns before that call) and the error returned (\<open>None\<close> for \<^verbatim>\<open>nil\<close>).
\<close>

definition postToWavelog ::
  "stdlib \<Rightarrow> ProfileConfig \<Rightarrow> RigData \<Rightarrow> http_io \<Rightarrow> http_request option \<times> error option" where
  "postToWavelog lib config data net =
     (case Marshal (payload_of lib config data) of
        Inl err \<Rightarrow> (None, Some (Wrapped ''failed to marshal JSON payload'' err))
      | Inr jsonPayload \<Rightarrow>
          (case NewRequest net of
             Some err \<Rightarrow> (None, Some (Wrapped ''failed to create HTTP request'' err))
           | None \<Rightarrow>
               (let req = \<lparr>req_url = WavelogURL config @ ''/api/radio'',
                           req_body = jsonPayload\<rparr>
                in case client_Do net of
                     Inl err \<Rightarrow> (Some req, Some (Wrapped ''failed to execute HTTP request'' err))
                   | Inr (StatusCode, body) \<Rightarrow>
                       if StatusCode \<noteq> 200
                       then (Some req, Some (Cause ''wavelog API returned non-200 status code''))
                       else (Some req, None))))"

section \<open>Resolving the configuration\<close>

text \<open>The built-in defaults (\<^verbatim>\<open>defaultConfig\<close>, lines 312 to 323).\<close>

definition defaultConfig :: ProfileConfig where
  "defaultConfig =
     \<lparr>WavelogURL = ''http://localhost/index.php'', WavelogKey = ''YOUR_API_KEY'',
      RadioName = ''RIG'', FlrigHost = ''127.0.0.1'', FlrigPort = 12345,
      HamlibHost = ''127.0.0.1'', HamlibPort = 4532, Interval = ''1s'',
      DataSource = ''flrig'', LogLevel = ''error''\<rparr>"

text \<open>
  The document in \<^verbatim>\<open>config.json\<close>, as \<^verbatim>\<open>json.Unmarshal\<close> reads it into a
  \<^verbatim>\<open>ConfigFile\<close>: each member of an object may be present or absent, under the name
  of the field's \<^verbatim>\<open>json\<close> tag.
\<close>

record ProfileJSON =
  wavelog_url :: "string option"
  wavelog_key :: "string option"
  radio_name :: "string option"
  flrig_host :: "string option"
  flrig_port :: "int option"
  hamlib_host :: "string option"
  hamlib_port :: "int option"
  interval :: "string option"
  data_source :: "string option"
  log_level :: "string option"

record ConfigJSON =
  default_profile :: "string option"
  profiles :: "string \<rightharpoonup> ProfileJSON"

record ConfigFile =
  DefaultProfile :: string
  Profiles :: "string \<rightharpoonup> ProfileConfig"

text \<open>
  \<^verbatim>\<open>json.Unmarshal\<close> into a fresh struct sets the fields whose members are present
  and leaves every other field at the zero value of its type.
\<close>

definition unmarshal_profile :: "ProfileJSON \<Rightarrow> ProfileConfig" where
  "unmarshal_profile j =
     \<lparr>WavelogURL = (case wavelog_url j of None \<Rightarrow> [] | Some v \<Rightarrow> v),
      WavelogKey = (case wavelog_key j of None \<Rightarrow> [] | Some v \<Rightarrow> v),
      RadioName = (case radio_name j of None \<Rightarrow> [] | Some v \<Rightarrow> v),
      FlrigHost = (case flrig_host j of None \<Rightarrow> [] | Some v \<Rightarrow> v),
      FlrigPort = (case flrig_port j of None \<Rightarrow> 0 | Some v \<Rightarrow> v),
      HamlibHost = (case hamlib_host j of None \<Rightarrow> [] | Some v \<Rightarrow> v),
      HamlibPort = (case hamlib_port j of None \<Rightarrow> 0 | Some v \<Rightarrow> v),
      Interval = (case interval j of None \<Rightarrow> [] | Some v \<Rightarrow> v),
      DataSource = (case data_source j of None \<Rightarrow> [] | Some v \<Rightarrow> v),
      LogLevel = (case log_level j of None \<Rightarrow> [] | Some v \<Rightarrow> v)\<rparr>"

definition unmarshal_config :: "ConfigJSON \<Rightarrow> ConfigFile" where
  "unmarshal_config doc =
     \<lparr>DefaultProfile = (case default_profile doc of None \<Rightarrow> [] | Some v \<Rightarrow> v),
      Profiles = (\<lambda>name. map_option unmarshal_profile (profiles doc name))\<rparr>"

text \<open>
  What reading the configuration file gives: \<^verbatim>\<open>os.ReadFile\<close> fails, or the text is
  not a JSON document of the expected shape (\<^verbatim>\<open>json.Unmarshal\<close> fails), or the
  document.
\<close>

datatype config_io = ReadFile_error error | Unmarshal_error error | Document ConfigJSON

text \<open>\<^verbatim>\<open>loadConfig\<close> (lines 107 to 118).\<close>

definition loadConfig :: "config_io \<Rightarrow> ConfigFile \<times> error option" where
  "loadConfig disk =
     (case disk of
        ReadFile_error err \<Rightarrow> (\<lparr>DefaultProfile = [], Profiles = Map.empty\<rparr>, Some err)
      | Unmarshal_error err \<Rightarrow>
          (\<lparr>DefaultProfile = [], Profiles = Map.empty\<rparr>,
           Some (Wrapped ''failed to unmarshal config file'' err))
      | Document doc \<Rightarrow> (unmarshal_config doc, None))"

text \<open>The configuration file \<^verbatim>\<open>main\<close> works with (lines 359 to 368).\<close>

definition cfgFile_of :: "config_io \<Rightarrow> ConfigFile" where
  "cfgFile_of disk =
     (case loadConfig disk of
        (loadedCfgFile, None) \<Rightarrow> loadedCfgFile
      | (loadedCfgFile, Some err) \<Rightarrow> \<lparr>DefaultProfile = ''default'', Profiles = Map.empty\<rparr>)"

text \<open>The name of the profile to use (lines 370 to 376).\<close>

definition profileToUse :: "ConfigFile \<Rightarrow> string \<Rightarrow> string" where
  "profileToUse cfgFile currentProfileName =
     (let name = (if currentProfileName \<noteq> [] then currentProfileName
                  else DefaultProfile cfgFile)
      in if name = [] then ''default'' else name)"

text \<open>
  The command-line flags of the settings: \<^verbatim>\<open>flag.Visit\<close> visits the flags that were
  set on the command line, so each is either set, with its parsed value, or not set.
\<close>

record flags =
  flag_wavelog_url :: "string option"
  flag_wavelog_key :: "string option"
  flag_radio_name :: "string option"
  flag_flrig_host :: "string option"
  flag_flrig_port :: "int option"
  flag_hamlib_host :: "string option"
  flag_hamlib_port :: "int option"
  flag_interval :: "string option"
  flag_data_source :: "string option"
  flag_log_level :: "string option"

text \<open>The function passed to \<^verbatim>\<open>flag.Visit\<close> (lines 389 to 412).\<close>

definition apply_flags :: "flags \<Rightarrow> ProfileConfig \<Rightarrow> ProfileConfig" where
  "apply_flags fl c =
     \<lparr>WavelogURL = (case flag_wavelog_url fl of None \<Rightarrow> WavelogURL c | Some v \<Rightarrow> v),
      WavelogKey = (case flag_wavelog_key fl of None \<Rightarrow> WavelogKey c | Some v \<Rightarrow> v),
      RadioName = (case flag_radio_name fl of None \<Rightarrow> RadioName c | Some v \<Rightarrow> v),
      FlrigHost = (case flag_flrig_host fl of None \<Rightarrow> FlrigHost c | Some v \<Rightarrow> v),
      FlrigPort = (case flag_flrig_port fl of None \<Rightarrow> FlrigPort c | Some v \<Rightarrow> v),
      HamlibHost = (case flag_hamlib_host fl of None \<Rightarrow> HamlibHost c | Some v \<Rightarrow> v),
      HamlibPort = (case flag_hamlib_port fl of None \<Rightarrow> HamlibPort c | Some v \<Rightarrow> v),
      Interval = (case flag_interval fl of None \<Rightarrow> Interval c | Some v \<Rightarrow> v),
      DataSource = (case flag_data_source fl of None \<Rightarrow> DataSource c | Some v \<Rightarrow> v),
      LogLevel = (case flag_log_level fl of None \<Rightarrow> LogLevel c | Some v \<Rightarrow> v)\<rparr>"

text \<open>
  \<^verbatim>\<open>currentProfileConfig\<close> after the merge (lines 359 to 412), from the
  configuration file, the flag \<^verbatim>\<open>-profile\<close> and the flags of the settings.
\<close>

definition currentProfileConfig :: "config_io \<Rightarrow> string \<Rightarrow> flags \<Rightarrow> ProfileConfig" where
  "currentProfileConfig disk currentProfileName fl =
     (let cfgFile = cfgFile_of disk;
          name = profileToUse cfgFile currentProfileName
      in apply_flags fl
           (case Profiles cfgFile name of None \<Rightarrow> defaultConfig | Some p \<Rightarrow> p))"

text \<open>
  The stored record that the merge selects, as the document has it: none when the file
  could not be loaded or holds no record under the name.
\<close>

definition stored_record :: "config_io \<Rightarrow> string \<Rightarrow> ProfileJSON option" where
  "stored_record disk currentProfileName =
     (case disk of
        Document doc \<Rightarrow> profiles doc (profileToUse (cfgFile_of disk) currentProfileName)
      | _ \<Rightarrow> None)"

text \<open>
  The merge in the words of the specification: three layers, field by field, a later
  layer overriding an earlier one where it supplies the setting, the earlier value
  passing through where it does not.
\<close>

definition layered :: "'a option \<Rightarrow> 'a option \<Rightarrow> 'a \<Rightarrow> 'a" where
  "layered override stored dflt =
     (case override of
        Some v \<Rightarrow> v
      | None \<Rightarrow> (case stored of Some v \<Rightarrow> v | None \<Rightarrow> dflt))"

definition spec_merge :: "ProfileConfig \<Rightarrow> ProfileJSON option \<Rightarrow> flags \<Rightarrow> ProfileConfig" where
  "spec_merge defaults stored fl =
     \<lparr>WavelogURL = layered (flag_wavelog_url fl) (Option.bind stored wavelog_url) (WavelogURL defaults),
      WavelogKey = layered (flag_wavelog_key fl) (Option.bind stored wavelog_key) (WavelogKey defaults),
      RadioName = layered (flag_radio_name fl) (Option.bind stored radio_name) (RadioName defaults),
      FlrigHost = layered (flag_flrig_host fl) (Option.bind stored flrig_host) (FlrigHost defaults),
      FlrigPort = layered (flag_flrig_port fl) (Option.bind stored flrig_port) (FlrigPort defaults),
      HamlibHost = layered (flag_hamlib_host fl) (Option.bind stored hamlib_host) (HamlibHost defaults),
      HamlibPort = layered (flag_hamlib_port fl) (Option.bind stored hamlib_port) (HamlibPort defaults),
      Interval = layered (flag_interval fl) (Option.bind stored interval) (Interval defaults),
      DataSource = layered (flag_data_source fl) (Option.bind stored data_source) (DataSource defaults),
      LogLevel = layered (flag_log_level fl) (Option.bind stored log_level) (LogLevel defaults)\<rparr>"

text \<open>
  One setting as the code resolves it: the override when the flag was set; else, when a
  record is stored, the record's member, or the zero value of the type when the record
  lacks the member; else the default.
\<close>

definition as_coded ::
  "'a option \<Rightarrow> ProfileJSON option \<Rightarrow> (ProfileJSON \<Rightarrow> 'a option) \<Rightarrow> 'a \<Rightarrow> 'a \<Rightarrow> 'a" where
  "as_coded override stored member zero dflt =
     (case override of
        Some v \<Rightarrow> v
      | None \<Rightarrow>
          (case stored of
             None \<Rightarrow> dflt
           | Some record_json \<Rightarrow> (case member record_json of Some v \<Rightarrow> v | None \<Rightarrow> zero)))"

definition coded_merge :: "ProfileJSON option \<Rightarrow> flags \<Rightarrow> ProfileConfig" where
  "coded_merge stored fl =
     \<lparr>WavelogURL = as_coded (flag_wavelog_url fl) stored wavelog_url [] (WavelogURL defaultConfig),
      WavelogKey = as_coded (flag_wavelog_key fl) stored wavelog_key [] (WavelogKey defaultConfig),
      RadioName = as_coded (flag_radio_name fl) stored radio_name [] (RadioName defaultConfig),
      FlrigHost = as_coded (flag_flrig_host fl) stored flrig_host [] (FlrigHost defaultConfig),
      FlrigPort = as_coded (flag_flrig_port fl) stored flrig_port 0 (FlrigPort defaultConfig),
      HamlibHost = as_coded (flag_hamlib_host fl) stored hamlib_host [] (HamlibHost defaultConfig),
      HamlibPort = as_coded (flag_hamlib_port fl) stored hamlib_port 0 (HamlibPort defaultConfig),
      Interval = as_coded (flag_interval fl) stored interval [] (Interval defaultConfig),
      DataSource = as_coded (flag_data_source fl) stored data_source [] (DataSource defaultConfig),
      LogLevel = as_coded (flag_log_level fl) stored log_level [] (LogLevel defaultConfig)\<rparr>"

section \<open>Validation and the poll loop\<close>

text \<open>
  How the start of \<^verbatim>\<open>main\<close> ends: \<^verbatim>\<open>log.Fatalf\<close> logs and exits the process, or
  the poll loop is entered with a client and an interval (in nanoseconds).
\<close>

datatype startup = Fatal string | Polling RadioClient int

text \<open>
  The checks between the merge and the loop (lines 440 to 463), in the order of the
  code. The profile commands \<^verbatim>\<open>-set-default-profile\<close> and \<^verbatim>\<open>-save-profile\<close>
  (lines 414 to 436) come before these checks; \<^verbatim>\<open>main_after_merge\<close> below has both.
\<close>

definition validate :: "stdlib \<Rightarrow> ProfileConfig \<Rightarrow> startup" where
  "validate lib config =
     (if WavelogKey config = [] \<or> WavelogKey config = WavelogKey defaultConfig
      then Fatal ''Fatal: Wavelog API key is required.''
      else if WavelogURL config = [] then Fatal ''Fatal: Wavelog URL is required.''
      else
        (case (if ToLower lib (DataSource config) = ''flrig''
               then Some (FlrigClient (FlrigHost config) (FlrigPort config))
               else if ToLower lib (DataSource config) = ''hamlib''
               then Some (HamlibClient (HamlibHost config) (HamlibPort config))
               else None) of
           None \<Rightarrow> Fatal ''Fatal: Invalid data source specified.''
         | Some client \<Rightarrow>
             (case ParseDuration lib (Interval config) of
                Inl err \<Rightarrow> Fatal ''Fatal: Invalid interval duration format.''
              | Inr intervalDuration \<Rightarrow> Polling client intervalDuration)))"

text \<open>What the world does during one pass of the loop body.\<close>

record tick_io =
  radio :: radio_io
  network :: http_io

text \<open>How one pass of the loop body ends.\<close>

datatype outcome =
  ReadFailed error | Unchanged | PostFailed RigData error | Posted RigData

text \<open>
  One pass of the body of the \<^verbatim>\<open>for\<close> loop (lines 469 to 497), after the sleep:
  the new value of \<^verbatim>\<open>lastData\<close> and how the pass ended. Every \<^verbatim>\<open>continue\<close> leaves
  \<^verbatim>\<open>lastData\<close> as it was.
\<close>

definition tick ::
  "stdlib \<Rightarrow> ProfileConfig \<Rightarrow> RadioClient \<Rightarrow> RigData \<Rightarrow> tick_io \<Rightarrow> RigData \<times> outcome" where
  "tick lib config client lastData io =
     (case GetData lib client (radio io) of
        (currentData, Some err) \<Rightarrow> (lastData, ReadFailed err)
      | (currentData, None) \<Rightarrow>
          (case ChangeGate lastData currentData of
             Skip \<Rightarrow> (lastData, Unchanged)
           | Forward \<Rightarrow>
               (case snd (postToWavelog lib config currentData (network io)) of
                  Some err \<Rightarrow> (lastData, PostFailed currentData err)
                | None \<Rightarrow> (currentData, Posted currentData))))"

text \<open>
  The loop never ends by itself. Its reachable states are those after finitely many
  passes: \<^verbatim>\<open>PollLoop\<close> runs the passes of a list, one per element, and gives the
  final \<^verbatim>\<open>lastData\<close> with the outcomes of the passes in order.
\<close>

fun PollLoop ::
  "stdlib \<Rightarrow> ProfileConfig \<Rightarrow> RadioClient \<Rightarrow> RigData \<Rightarrow> tick_io list \<Rightarrow>
   RigData \<times> outcome list" where
  "PollLoop lib config client lastData [] = (lastData, [])"
| "PollLoop lib config client lastData (io # ios) =
     (case tick lib config client lastData io of
        (lastData', out) \<Rightarrow>
          (case PollLoop lib config client lastData' ios of
             (final, outs) \<Rightarrow> (final, out # outs)))"

text \<open>The snapshot of the latest successful post among some outcomes, or a given one.\<close>

fun last_posted :: "RigData \<Rightarrow> outcome list \<Rightarrow> RigData" where
  "last_posted d [] = d"
| "last_posted d (Posted x # outs) = last_posted x outs"
| "last_posted d (out # outs) = last_posted d outs"

section \<open>Log calls and the ways the process ends\<close>

text \<open>
  The severities of logrus. A call of \<^verbatim>\<open>log.Fatalf\<close> logs at \<^verbatim>\<open>FatalLevel\<close> and
  then exits the process, whatever level the logger is set to; a call at any other
  severity returns. The functions below list the severities of the log calls a piece of
  code makes, in the order it makes them.
\<close>

datatype level = DebugLevel | InfoLevel | WarnLevel | ErrorLevel | FatalLevel

text \<open>The log calls of \<^verbatim>\<open>FlrigClient.GetData\<close> (lines 158, 167, 173, 178, 182, 187, 191).\<close>

definition FlrigClient_GetData_log :: "stdlib \<Rightarrow> flrig_io \<Rightarrow> level list" where
  "FlrigClient_GetData_log lib rpc =
     (case NewClient rpc of
        Some err \<Rightarrow> []
      | None \<Rightarrow>
     (case rig_get_vfo rpc of
        Inl err \<Rightarrow> []
      | Inr vfoA \<Rightarrow>
     (case ParseFloat lib vfoA of
        Inl err \<Rightarrow> [ErrorLevel]
      | Inr freqA \<Rightarrow>
     (case rig_get_mode rpc of
        Inl err \<Rightarrow> []
      | Inr mode \<Rightarrow>
          (case rig_get_power rpc of Inl err \<Rightarrow> [DebugLevel] | Inr p \<Rightarrow> []) @
          (case rig_get_split rpc of Inl err \<Rightarrow> [WarnLevel] | Inr sp \<Rightarrow> []) @
          (case rig_get_vfoB rpc of Inl err \<Rightarrow> [DebugLevel] | Inr v \<Rightarrow> []) @
          (case ParseFloat lib (case rig_get_vfoB rpc of Inl err \<Rightarrow> vfoA | Inr v \<Rightarrow> v) of
             Inl err \<Rightarrow> [ErrorLevel]
           | Inr freqB \<Rightarrow>
               (case rig_get_modeB rpc of Inl err \<Rightarrow> [DebugLevel] | Inr m \<Rightarrow> []) @
               [DebugLevel])))))"

text \<open>
  The log calls of \<^verbatim>\<open>HamlibClient.GetData\<close> (lines 239, 244, 250): none on a
  mandatory failure, and one warning when the power read, reached once the mandatory
  reads are done, fails at its send, its read or its parse.
\<close>

definition HamlibClient_GetData_log :: "stdlib \<Rightarrow> hamlib_io \<Rightarrow> level list" where
  "HamlibClient_GetData_log lib conn =
     (case HamlibClient_GetData lib conn of
        (data, Some err) \<Rightarrow> []
      | (data, None) \<Rightarrow>
          (case send_P conn of
             Some err \<Rightarrow> [WarnLevel]
           | None \<Rightarrow>
               (case read_P conn of
                  Inl err \<Rightarrow> [WarnLevel]
                | Inr powerStr \<Rightarrow>
                    (case ParseFloat lib powerStr of
                       Inl err \<Rightarrow> [WarnLevel]
                     | Inr powerPercent \<Rightarrow> []))))"

definition GetData_log :: "stdlib \<Rightarrow> RadioClient \<Rightarrow> radio_io \<Rightarrow> level list" where
  "GetData_log lib client answers =
     (case client of
        FlrigClient host port \<Rightarrow> FlrigClient_GetData_log lib (flrig answers)
      | HamlibClient host port \<Rightarrow> HamlibClient_GetData_log lib (hamlib answers))"

text \<open>The log call of \<^verbatim>\<open>postToWavelog\<close> (line 286), made once the payload is encoded.\<close>

definition postToWavelog_log :: "stdlib \<Rightarrow> ProfileConfig \<Rightarrow> RigData \<Rightarrow> level list" where
  "postToWavelog_log lib config data =
     (case Marshal (payload_of lib config data) of
        Inl err \<Rightarrow> []
      | Inr jsonPayload \<Rightarrow> [InfoLevel])"

text \<open>
  The log calls of one pass of the loop body (lines 469 to 497), those of the two
  functions it calls included. The test of line 476, which tells a connection error
  from another error of \<^verbatim>\<open>GetData\<close>, is the parameter \<^verbatim>\<open>connection_error\<close>.
\<close>

definition tick_log ::
  "stdlib \<Rightarrow> (error \<Rightarrow> bool) \<Rightarrow> ProfileConfig \<Rightarrow> RadioClient \<Rightarrow> RigData \<Rightarrow> tick_io \<Rightarrow>
   level list" where
  "tick_log lib connection_error config client lastData io =
     GetData_log lib client (radio io) @
     (case GetData lib client (radio io) of
        (currentData, Some err) \<Rightarrow> [if connection_error err then DebugLevel else ErrorLevel]
      | (currentData, None) \<Rightarrow>
          (case ChangeGate lastData currentData of
             Skip \<Rightarrow> [DebugLevel]
           | Forward \<Rightarrow>
               [InfoLevel] @ postToWavelog_log lib config currentData @
               (case snd (postToWavelog lib config currentData (network io)) of
                  Some err \<Rightarrow> [ErrorLevel]
                | None \<Rightarrow> [DebugLevel])))"

text \<open>
  Whether one of the given passes of the loop, run in order from \<^verbatim>\<open>lastData\<close>, makes
  a log call at \<^verbatim>\<open>FatalLevel\<close>, which would exit the process there.
\<close>

fun PollLoop_fatal ::
  "stdlib \<Rightarrow> (error \<Rightarrow> bool) \<Rightarrow> ProfileConfig \<Rightarrow> RadioClient \<Rightarrow> RigData \<Rightarrow> tick_io list \<Rightarrow>
   bool" where
  "PollLoop_fatal lib connection_error config client lastData [] = False"
| "PollLoop_fatal lib connection_error config client lastData (io # ios) =
     (FatalLevel \<in> set (tick_log lib connection_error config client lastData io) \<or>
      PollLoop_fatal lib connection_error config client
        (fst (tick lib config client lastData io)) ios)"

text \<open>
  What the two profile commands meet: the values of the flags
  \<^verbatim>\<open>-set-default-profile\<close> and \<^verbatim>\<open>-save-profile\<close> (empty when not given), whether
  \<^verbatim>\<open>cfgFile.Profiles\<close> is a nil map (the loaded document had no \<^verbatim>\<open>profiles\<close>
  member), and what \<^verbatim>\<open>saveConfig\<close> returns.
\<close>

record command_io =
  setDefaultProfileName :: string
  saveProfileName :: string
  Profiles_nil :: bool
  saveConfig :: "error option"

text \<open>
  How the process stands: exited by \<^verbatim>\<open>log.Fatalf\<close> before the loop, returned from
  \<^verbatim>\<open>main\<close> after a profile command, ended by a runtime panic, exited by a fatal log
  call in a pass of the loop, or still in the loop after the given passes, with
  \<^verbatim>\<open>lastData\<close> and the outcomes of the passes.
\<close>

datatype process =
  Fatal_exit string | Returned string | Panicked string | Loop_exit
  | Running RigData "outcome list"

text \<open>
  \<^verbatim>\<open>main\<close> from the end of the merge on (lines 414 to 498): the two profile commands,
  the validation, and the loop, which starts with \<^verbatim>\<open>lastData\<close> at its zero value. The
  inner test of line 427 is kept as the code has it.
\<close>

definition main_after_merge ::
  "stdlib \<Rightarrow> (error \<Rightarrow> bool) \<Rightarrow> ConfigFile \<Rightarrow> command_io \<Rightarrow> ProfileConfig \<Rightarrow> tick_io list \<Rightarrow>
   process" where
  "main_after_merge lib connection_error cfgFile cmd config ios =
     (if setDefaultProfileName cmd \<noteq> [] then
        (if Profiles cfgFile (setDefaultProfileName cmd) = None
         then Fatal_exit ''Fatal: Cannot set default profile. Profile does not exist.''
         else (case saveConfig cmd of
                 Some err \<Rightarrow> Fatal_exit ''Fatal: Failed to save configuration file.''
               | None \<Rightarrow> Returned ''Default profile successfully set.''))
      else if saveProfileName cmd \<noteq> [] then
        (if saveProfileName cmd = []
         then Fatal_exit ''Fatal: The --save-profile flag requires a profile name.''
         else if Profiles_nil cmd then Panicked ''assignment to entry in nil map''
         else (case saveConfig cmd of
                 Some err \<Rightarrow> Fatal_exit ''Fatal: Failed to save configuration file.''
               | None \<Rightarrow> Returned ''Configuration saved successfully.''))
      else
        (case validate lib config of
           Fatal msg \<Rightarrow> Fatal_exit msg
         | Polling client intervalDuration \<Rightarrow>
             if PollLoop_fatal lib connection_error config client RigData_zero ios
             then Loop_exit
             else (case PollLoop lib config client RigData_zero ios of
                     (lastData, outs) \<Rightarrow> Running lastData outs)))"

section \<open>Concrete inputs for the examples\<close>

text \<open>
  A library instance for the closed examples below. Its \<^verbatim>\<open>ParseFloat\<close> reads the
  text \<^verbatim>\<open>NaN\<close> and unsigned decimal integers as \<^verbatim>\<open>strconv.ParseFloat\<close> does and
  reports a syntax error on every other text (\<^verbatim>\<open>strconv.ParseFloat\<close> does so on the
  empty text and on a text of letters, the only such inputs used below). Its
  \<^verbatim>\<open>Fields\<close> splits at ASCII spaces and tabs, its \<^verbatim>\<open>ToLower\<close> lowers the ASCII
  capitals, its \<^verbatim>\<open>ParseDuration\<close> knows the two intervals the usage text names.
\<close>

definition digit_value :: "char \<Rightarrow> nat" where
  "digit_value c = of_char c - 48"

definition is_digit :: "char \<Rightarrow> bool" where
  "is_digit c = (c \<in> set ''0123456789'')"

definition sample_ParseFloat :: "string \<Rightarrow> error + float64" where
  "sample_ParseFloat s =
     (if s = ''NaN'' then Inr NaN
      else if s \<noteq> [] \<and> list_all is_digit s
      then Inr (Finite (of_nat (foldl (\<lambda>n c. 10 * n + digit_value c) 0 s)))
      else Inl (Cause ''strconv.ParseFloat: invalid syntax''))"

fun sample_Fields_from :: "string \<Rightarrow> string \<Rightarrow> string list" where
  "sample_Fields_from word [] = (if word = [] then [] else [word])"
| "sample_Fields_from word (c # cs) =
     (if c = CHR '' '' \<or> c = CHR 0x09
      then (if word = [] then sample_Fields_from [] cs else word # sample_Fields_from [] cs)
      else sample_Fields_from (word @ [c]) cs)"

definition sample_ToLower :: "string \<Rightarrow> string" where
  "sample_ToLower s =
     map (\<lambda>c. case map_of (zip ''ABCDEFGHIJKLMNOPQRSTUVWXYZ'' ''abcdefghijklmnopqrstuvwxyz'') c of
                 Some l \<Rightarrow> l
               | None \<Rightarrow> c) s"

definition sample_ParseDuration :: "string \<Rightarrow> error + int" where
  "sample_ParseDuration s =
     (if s = ''1s'' then Inr 1000000000
      else if s = ''1500ms'' then Inr 1500000000
      else Inl (Cause ''time: invalid duration''))"

definition sample_lib :: stdlib where
  "sample_lib =
     \<lparr>ParseFloat = sample_ParseFloat, Fields = sample_Fields_from [],
      ToLower = sample_ToLower, ParseDuration = sample_ParseDuration,
      int_unrepresentable = (\<lambda>f. - (2 ^ 63))\<rparr>"

text \<open>A configuration with a real key, and a network on which the post succeeds.\<close>

definition sample_config :: ProfileConfig where
  "sample_config = defaultConfig\<lparr>WavelogKey := ''abc123'', RadioName := ''IC-7300''\<rparr>"

definition net_ok :: http_io where
  "net_ok = \<lparr>NewRequest = None, client_Do = Inr (200, ''{}'')\<rparr>"

definition net_down :: http_io where
  "net_down = \<lparr>NewRequest = None, client_Do = Inl (Cause ''dial tcp: connection refused'')\<rparr>"

text \<open>The two snapshots of the specification's mapping examples.\<close>

definition split_off_data :: RigData where
  "split_off_data =
     \<lparr>FreqVFOA = Finite 14074000, FreqVFOB = Finite 14074000, Mode = ''DATA'',
      ModeB = ''DATA'', Split = 0, Power = Finite 50\<rparr>"

definition split_on_data :: RigData where
  "split_on_data =
     \<lparr>FreqVFOA = Finite 14076000, FreqVFOB = Finite 14074000, Mode = ''DATA'',
      ModeB = ''DATA'', Split = 1, Power = Finite 50\<rparr>"

text \<open>A flrig that answers every call, and a rigctld that answers every command.\<close>

definition flrig_ok :: flrig_io where
  "flrig_ok =
     \<lparr>NewClient = None, rig_get_vfo = Inr ''14074000'', rig_get_mode = Inr ''USB'',
      rig_get_power = Inr 50, rig_get_split = Inr 0, rig_get_vfoB = Inr ''7100000'',
      rig_get_modeB = Inr ''LSB''\<rparr>"

definition hamlib_ok :: hamlib_io where
  "hamlib_ok =
     \<lparr>Dial = None, send_f = None, read_f = Inr ''14074000'', send_m = None,
      read_m = Inr ''USB 2400'', send_P = None, read_P = Inr ''50''\<rparr>"

text \<open>A flrig with no rig behind it: every call answers, with zeros and empty texts.\<close>

definition flrig_idle :: flrig_io where
  "flrig_idle =
     \<lparr>NewClient = None, rig_get_vfo = Inr ''0'', rig_get_mode = Inr [],
      rig_get_power = Inr 0, rig_get_split = Inr 0, rig_get_vfoB = Inr ''0'',
      rig_get_modeB = Inr []\<rparr>"

text \<open>
  A stored record that gives every setting, as \<^verbatim>\<open>-save-profile\<close> writes it, one that
  gives the key only, as a hand-written file may, and configuration documents that hold
  them under the default profile name \<^verbatim>\<open>home\<close>.
\<close>

definition complete :: "ProfileJSON \<Rightarrow> bool" where
  "complete j =
     (wavelog_url j \<noteq> None \<and> wavelog_key j \<noteq> None \<and> radio_name j \<noteq> None \<and>
      flrig_host j \<noteq> None \<and> flrig_port j \<noteq> None \<and> hamlib_host j \<noteq> None \<and>
      hamlib_port j \<noteq> None \<and> interval j \<noteq> None \<and> data_source j \<noteq> None \<and>
      log_level j \<noteq> None)"

definition saved_record :: ProfileJSON where
  "saved_record =
     \<lparr>wavelog_url = Some ''https://mywavelog.com/index.php'', wavelog_key = Some ''abc123'',
      radio_name = Some ''IC-7300'', flrig_host = Some ''127.0.0.1'', flrig_port = Some 12345,
      hamlib_host = Some ''127.0.0.1'', hamlib_port = Some 4532, interval = Some ''1500ms'',
      data_source = Some ''flrig'', log_level = Some ''info''\<rparr>"

definition key_only_record :: ProfileJSON where
  "key_only_record =
     \<lparr>wavelog_url = None, wavelog_key = Some ''abc123'', radio_name = None,
      flrig_host = None, flrig_port = None, hamlib_host = None, hamlib_port = None,
      interval = None, data_source = None, log_level = None\<rparr>"

definition saved_doc :: ConfigJSON where
  "saved_doc = \<lparr>default_profile = Some ''home'', profiles = [''home'' \<mapsto> saved_record]\<rparr>"

definition key_only_doc :: ConfigJSON where
  "key_only_doc =
     \<lparr>default_profile = Some ''home'', profiles = [''home'' \<mapsto> key_only_record]\<rparr>"

definition no_flags :: flags where
  "no_flags =
     \<lparr>flag_wavelog_url = None, flag_wavelog_key = None, flag_radio_name = None,
      flag_flrig_host = None, flag_flrig_port = None, flag_hamlib_host = None,
      flag_hamlib_port = None, flag_interval = None, flag_data_source = None,
      flag_log_level = None\<rparr>"

text \<open>A run with neither profile command.\<close>

definition no_commands :: command_io where
  "no_commands =
     \<lparr>setDefaultProfileName = [], saveProfileName = [], Profiles_nil = False,
      saveConfig = None\<rparr>"

section \<open>Properties of the change gate\<close>

lemma RigData_eq_iff: "RigData_eq a b \<longleftrightarrow> a = b \<and> no_NaN a"
  by (cases a, cases b) (auto simp: RigData_eq_def float64_eq_def no_NaN_def)

text \<open>
  Claim C1, as the code has it. The gate skips exactly when the new snapshot and the
  last forwarded one agree in every field (freqA, freqB, modeA, modeB, split, power) and
  none of the numeric fields is NaN. So two snapshots that differ in a field are always
  forwarded, and a snapshot without NaN compared with itself is skipped.
\<close>

theorem C1_change_gate:
  "(ChangeGate lastData currentData = Skip \<longleftrightarrow>
      currentData = lastData \<and> no_NaN currentData) \<and>
   (currentData \<noteq> lastData \<longrightarrow> ChangeGate lastData currentData = Forward) \<and>
   (no_NaN a \<longrightarrow> ChangeGate a a = Skip)"
  by (auto simp: ChangeGate_def RigData_eq_iff)

text \<open>Two identical reads are skipped; a read that differs in the power is forwarded.\<close>

theorem C1_change_gate_witness:
  "ChangeGate split_off_data split_off_data = Skip \<and>
   ChangeGate split_off_data (split_off_data\<lparr>Power := Finite 100\<rparr>) = Forward"
  using C1_change_gate
    [of split_off_data "split_off_data\<lparr>Power := Finite 100\<rparr>" split_off_data]
  by (simp add: no_NaN_def split_off_data_def)

text \<open>
  The reflexivity that C1 states fails where a numeric field is NaN
  (\<^verbatim>\<open>strconv.ParseFloat\<close> reads the text \<^verbatim>\<open>NaN\<close> as such): a snapshot whose
  frequencies are NaN, compared with itself, is forwarded.
\<close>

theorem C1_counterexample:
  "ChangeGate
     \<lparr>FreqVFOA = NaN, FreqVFOB = NaN, Mode = ''USB'', ModeB = ''USB'', Split = 0,
      Power = Finite 0\<rparr>
     \<lparr>FreqVFOA = NaN, FreqVFOB = NaN, Mode = ''USB'', ModeB = ''USB'', Split = 0,
      Power = Finite 0\<rparr> = Forward"
  by (simp add: ChangeGate_def RigData_eq_def float64_eq_def)

section \<open>The request body\<close>

text \<open>Within the range of \<^verbatim>\<open>int\<close> the conversion truncates toward zero.\<close>

lemma go_int_Finite:
  "- (2 ^ 63) \<le> r \<Longrightarrow> r < 2 ^ 63 \<Longrightarrow> go_int lib (Finite r) = truncate_real r"
  unfolding go_int_def truncate_real_def
  by (auto simp: floor_less_iff le_ceiling_iff)

text \<open>The body of a request that was sent, member by member.\<close>

lemma postToWavelog_sent:
  "fst (postToWavelog lib config data net) = Some req \<Longrightarrow>
     \<exists>w. Power data = Finite w \<and> req_body req =
       [(''key'', JString (WavelogKey config)), (''radio'', JString (RadioName config)),
        (''power'', JFloat w)] @
       (if Split data = 0
        then [(''frequency'', JInt (go_int lib (FreqVFOA data))), (''mode'', JString (Mode data))]
        else [(''frequency'', JInt (go_int lib (FreqVFOB data))), (''mode'', JString (ModeB data))] @
             (if go_int lib (FreqVFOA data) = 0 then []
              else [(''frequency_rx'', JInt (go_int lib (FreqVFOA data)))]) @
             (if Mode data = [] then [] else [(''mode_rx'', JString (Mode data))]))"
  by (auto simp: postToWavelog_def Marshal_def payload_of_def Let_def
           split: float64.splits option.splits sum.splits if_splits prod.splits)

text \<open>
  Claim C2, as the code has it. Whenever \<^verbatim>\<open>postToWavelog\<close> sends a request, its body
  has key, radio and power (the snapshot's power, a finite number, unconverted). With
  split off, frequency is \<^verbatim>\<open>int(freqA)\<close>, mode is modeA, and there is neither
  frequency_rx nor mode_rx. With split on, frequency is \<^verbatim>\<open>int(freqB)\<close>, mode is modeB,
  frequency_rx is \<^verbatim>\<open>int(freqA)\<close> when that is not 0 and absent when it is 0, and
  mode_rx is modeA when that is not empty and absent when it is empty. The conversion
  \<^verbatim>\<open>int\<close> is truncation toward zero on every finite frequency within the range of
  \<^verbatim>\<open>int\<close>.
\<close>

theorem C2_request_body:
  assumes "fst (postToWavelog lib config data net) = Some req"
  shows "map_of (req_body req) ''key'' = Some (JString (WavelogKey config)) \<and>
         map_of (req_body req) ''radio'' = Some (JString (RadioName config)) \<and>
         (\<exists>w. Power data = Finite w \<and> map_of (req_body req) ''power'' = Some (JFloat w)) \<and>
         (Split data = 0 \<longrightarrow>
            map_of (req_body req) ''frequency'' = Some (JInt (go_int lib (FreqVFOA data))) \<and>
            map_of (req_body req) ''mode'' = Some (JString (Mode data)) \<and>
            map_of (req_body req) ''frequency_rx'' = None \<and>
            map_of (req_body req) ''mode_rx'' = None) \<and>
         (Split data \<noteq> 0 \<longrightarrow>
            map_of (req_body req) ''frequency'' = Some (JInt (go_int lib (FreqVFOB data))) \<and>
            map_of (req_body req) ''mode'' = Some (JString (ModeB data)) \<and>
            map_of (req_body req) ''frequency_rx'' =
              (if go_int lib (FreqVFOA data) = 0 then None
               else Some (JInt (go_int lib (FreqVFOA data)))) \<and>
            map_of (req_body req) ''mode_rx'' =
              (if Mode data = [] then None else Some (JString (Mode data)))) \<and>
         (\<forall>r. - (2 ^ 63) \<le> r \<and> r < 2 ^ 63 \<longrightarrow>
            go_int lib (Finite r) = (if 0 \<le> r then \<lfloor>r\<rfloor> else \<lceil>r\<rceil>))"
proof -
  from postToWavelog_sent [OF assms] obtain w where
    w: "Power data = Finite w" and
    body: "req_body req =
       [(''key'', JString (WavelogKey config)), (''radio'', JString (RadioName config)),
        (''power'', JFloat w)] @
       (if Split data = 0
        then [(''frequency'', JInt (go_int lib (FreqVFOA data))), (''mode'', JString (Mode data))]
        else [(''frequency'', JInt (go_int lib (FreqVFOB data))), (''mode'', JString (ModeB data))] @
             (if go_int lib (FreqVFOA data) = 0 then []
              else [(''frequency_rx'', JInt (go_int lib (FreqVFOA data)))]) @
             (if Mode data = [] then [] else [(''mode_rx'', JString (Mode data))]))"
    by blast
  have trunc: "\<forall>r. - (2 ^ 63) \<le> r \<and> r < 2 ^ 63 \<longrightarrow>
            go_int lib (Finite r) = (if 0 \<le> r then \<lfloor>r\<rfloor> else \<lceil>r\<rceil>)"
    using go_int_Finite [of _ lib] by (simp add: truncate_real_def)
  show ?thesis
    using w trunc unfolding body by simp
qed

text \<open>The split-on example of the specification, and a fractional frequency.\<close>

theorem C2_witness:
  "fst (postToWavelog sample_lib sample_config split_on_data net_ok) =
     Some \<lparr>req_url = ''http://localhost/index.php/api/radio'',
           req_body = [(''key'', JString ''abc123''), (''radio'', JString ''IC-7300''),
                       (''power'', JFloat 50), (''frequency'', JInt 14074000),
                       (''mode'', JString ''DATA''), (''frequency_rx'', JInt 14076000),
                       (''mode_rx'', JString ''DATA'')]\<rparr> \<and>
   go_int sample_lib (FreqVFOB split_on_data) = 14074000 \<and>
   go_int sample_lib (Finite (140740007 / 10)) = 14074000"
  using C2_request_body [of sample_lib sample_config split_on_data net_ok
    "\<lparr>req_url = ''http://localhost/index.php/api/radio'',
           req_body = [(''key'', JString ''abc123''), (''radio'', JString ''IC-7300''),
                       (''power'', JFloat 50), (''frequency'', JInt 14074000),
                       (''mode'', JString ''DATA''), (''frequency_rx'', JInt 14076000),
                       (''mode_rx'', JString ''DATA'')]\<rparr>"]
  by (simp add: postToWavelog_def Marshal_def payload_of_def go_int_def truncate_real_def
        sample_config_def defaultConfig_def split_on_data_def net_ok_def)

text \<open>
  C2 as stated fails with split on when the receive side is zero or empty: for VFO-A at
  half a hertz with an empty mode, the body that is sent has neither frequency_rx nor
  mode_rx.
\<close>

theorem C2_counterexample:
  "fst (postToWavelog sample_lib sample_config
          \<lparr>FreqVFOA = Finite (1 / 2), FreqVFOB = Finite 14074000, Mode = [],
           ModeB = ''DATA'', Split = 1, Power = Finite 50\<rparr> net_ok) =
     Some \<lparr>req_url = ''http://localhost/index.php/api/radio'',
           req_body = [(''key'', JString ''abc123''), (''radio'', JString ''IC-7300''),
                       (''power'', JFloat 50), (''frequency'', JInt 14074000),
                       (''mode'', JString ''DATA'')]\<rparr>"
  by (simp add: postToWavelog_def Marshal_def payload_of_def go_int_def truncate_real_def
        sample_config_def defaultConfig_def net_ok_def)

text \<open>
  Claim C10. With split on, in the body of a request that is sent: when the receive
  frequency \<^verbatim>\<open>int(freqA)\<close> is 0 there is no frequency_rx member, and when the receive
  mode modeA is empty there is no mode_rx member. When both hold, the call does exactly
  what it does for the split-off snapshot tuned to freqB and modeB: the same request,
  the same result.
\<close>

theorem C10_omitempty:
  assumes "Split data \<noteq> 0" and "fst (postToWavelog lib config data net) = Some req"
  shows "(go_int lib (FreqVFOA data) = 0 \<longrightarrow> ''frequency_rx'' \<notin> fst ` set (req_body req)) \<and>
         (Mode data = [] \<longrightarrow> ''mode_rx'' \<notin> fst ` set (req_body req)) \<and>
         (go_int lib (FreqVFOA data) = 0 \<and> Mode data = [] \<longrightarrow>
            postToWavelog lib config
              (data\<lparr>Split := 0, FreqVFOA := FreqVFOB data, Mode := ModeB data\<rparr>) net =
            postToWavelog lib config data net)"
proof -
  from postToWavelog_sent [OF assms(2)] assms(1) obtain w where
    body: "req_body req =
       [(''key'', JString (WavelogKey config)), (''radio'', JString (RadioName config)),
        (''power'', JFloat w),
        (''frequency'', JInt (go_int lib (FreqVFOB data))), (''mode'', JString (ModeB data))] @
       (if go_int lib (FreqVFOA data) = 0 then []
        else [(''frequency_rx'', JInt (go_int lib (FreqVFOA data)))]) @
       (if Mode data = [] then [] else [(''mode_rx'', JString (Mode data))])"
    by auto
  have same: "go_int lib (FreqVFOA data) = 0 \<and> Mode data = [] \<longrightarrow>
      payload_of lib config (data\<lparr>Split := 0, FreqVFOA := FreqVFOB data, Mode := ModeB data\<rparr>) =
      payload_of lib config data"
    using assms(1) by (simp add: payload_of_def)
  have "go_int lib (FreqVFOA data) = 0 \<and> Mode data = [] \<longrightarrow>
            postToWavelog lib config
              (data\<lparr>Split := 0, FreqVFOA := FreqVFOB data, Mode := ModeB data\<rparr>) net =
            postToWavelog lib config data net"
    using same by (simp add: postToWavelog_def)
  then show ?thesis
    unfolding body by simp
qed

text \<open>Split on with VFO-A at half a hertz and no mode, against split off.\<close>

theorem C10_witness:
  "''frequency_rx'' \<notin> fst ` set [(''key'', JString ''abc123''), (''radio'', JString ''IC-7300''),
                       (''power'', JFloat 50), (''frequency'', JInt 14074000),
                       (''mode'', JString ''DATA'')] \<and>
   postToWavelog sample_lib sample_config
     \<lparr>FreqVFOA = Finite 14074000, FreqVFOB = Finite 14074000, Mode = ''DATA'',
      ModeB = ''DATA'', Split = 0, Power = Finite 50\<rparr> net_ok =
   postToWavelog sample_lib sample_config
     \<lparr>FreqVFOA = Finite (1 / 2), FreqVFOB = Finite 14074000, Mode = [],
      ModeB = ''DATA'', Split = 1, Power = Finite 50\<rparr> net_ok"
  using C10_omitempty [of "\<lparr>FreqVFOA = Finite (1 / 2), FreqVFOB = Finite 14074000, Mode = [],
      ModeB = ''DATA'', Split = 1, Power = Finite 50\<rparr>" sample_lib sample_config net_ok
      "\<lparr>req_url = ''http://localhost/index.php/api/radio'',
           req_body = [(''key'', JString ''abc123''), (''radio'', JString ''IC-7300''),
                       (''power'', JFloat 50), (''frequency'', JInt 14074000),
                       (''mode'', JString ''DATA'')]\<rparr>"]
  by (simp add: postToWavelog_def Marshal_def payload_of_def go_int_def truncate_real_def
        sample_config_def defaultConfig_def net_ok_def)

section \<open>Reading the radio\<close>

text \<open>\<^verbatim>\<open>FlrigClient.GetData\<close> once the client exists and the mandatory reads succeeded.\<close>

lemma Flrig_mandatory_ok:
  assumes "NewClient rpc = None" and "rig_get_vfo rpc = Inr vfoA"
    and "ParseFloat lib vfoA = Inr freqA" and "rig_get_mode rpc = Inr mode"
  shows "FlrigClient_GetData lib rpc =
     (case ParseFloat lib (case rig_get_vfoB rpc of Inl err \<Rightarrow> vfoA | Inr v \<Rightarrow> v) of
        Inl err \<Rightarrow> (RigData_zero, Some err)
      | Inr freqB \<Rightarrow>
          (\<lparr>FreqVFOA = freqA, FreqVFOB = freqB, Mode = mode,
            ModeB = (case rig_get_modeB rpc of Inl err \<Rightarrow> mode | Inr m \<Rightarrow> m),
            Split = (case rig_get_split rpc of Inl err \<Rightarrow> 0 | Inr sp \<Rightarrow> sp),
            Power = float64_of_int (case rig_get_power rpc of Inl err \<Rightarrow> 0 | Inr p \<Rightarrow> p)\<rparr>,
           None))"
  using assms by (simp add: FlrigClient_GetData_def Let_def split: sum.splits)

text \<open>
  Claim C5, as the code has it. For flrig, once the client is created and the mandatory
  reads (VFO-A frequency and its parse, primary mode) succeeded: when the call
  rig.get_vfoB fails, the read succeeds and freqB is freqA; when the call rig.get_modeB
  fails, a snapshot that is returned has modeB equal to modeA; and the read fails exactly
  when rig.get_vfoB answers with a text that does not parse as a number.
\<close>

theorem C5_vfoB_tolerated:
  assumes "NewClient rpc = None" and "rig_get_vfo rpc = Inr vfoA"
    and "ParseFloat lib vfoA = Inr freqA" and "rig_get_mode rpc = Inr mode"
  shows "((\<exists>err. rig_get_vfoB rpc = Inl err) \<longrightarrow>
            snd (FlrigClient_GetData lib rpc) = None \<and>
            FreqVFOB (fst (FlrigClient_GetData lib rpc)) = freqA \<and>
            FreqVFOA (fst (FlrigClient_GetData lib rpc)) = freqA) \<and>
         ((\<exists>err. rig_get_modeB rpc = Inl err) \<and> snd (FlrigClient_GetData lib rpc) = None \<longrightarrow>
            ModeB (fst (FlrigClient_GetData lib rpc)) = mode \<and>
            Mode (fst (FlrigClient_GetData lib rpc)) = mode) \<and>
         (snd (FlrigClient_GetData lib rpc) \<noteq> None \<longleftrightarrow>
            (\<exists>vfoB err. rig_get_vfoB rpc = Inr vfoB \<and> ParseFloat lib vfoB = Inl err))"
  unfolding Flrig_mandatory_ok [OF assms]
  using assms(3) by (auto split: sum.splits)

text \<open>Both VFO-B calls fail: the snapshot mirrors VFO-A.\<close>

theorem C5_witness:
  "FlrigClient_GetData sample_lib
     (flrig_ok\<lparr>rig_get_vfoB := Inl (Cause ''no such method''),
               rig_get_modeB := Inl (Cause ''no such method'')\<rparr>) =
   (\<lparr>FreqVFOA = Finite 14074000, FreqVFOB = Finite 14074000, Mode = ''USB'', ModeB = ''USB'',
     Split = 0, Power = Finite 50\<rparr>, None)"
  using C5_vfoB_tolerated [of "flrig_ok\<lparr>rig_get_vfoB := Inl (Cause ''no such method''),
               rig_get_modeB := Inl (Cause ''no such method'')\<rparr>" "''14074000''" sample_lib
               "Finite 14074000" "''USB''"]
  by (simp add: FlrigClient_GetData_def flrig_ok_def sample_lib_def sample_ParseFloat_def
        is_digit_def digit_value_def float64_of_int_def)

text \<open>
  C5 as stated fails when flrig answers rig.get_vfoB with a text that is no number (here
  the empty text): every VFO-A read succeeded, and the whole read fails.
\<close>

theorem C5_counterexample:
  "FlrigClient_GetData sample_lib (flrig_ok\<lparr>rig_get_vfoB := Inr []\<rparr>) =
     (RigData_zero, Some (Cause ''strconv.ParseFloat: invalid syntax''))"
  by (simp add: FlrigClient_GetData_def flrig_ok_def sample_lib_def sample_ParseFloat_def
        is_digit_def digit_value_def)

text \<open>
  Claim C7. For flrig, when the call rig.get_vfo fails, or its answer does not parse, or
  the call rig.get_mode fails, \<^verbatim>\<open>GetData\<close> returns an error with the zero-valued
  \<^verbatim>\<open>RigData\<close>. For rigctld likewise when sending \<^verbatim>\<open>f\<close> or \<^verbatim>\<open>m\<close> fails, when
  reading either answer fails, when the frequency does not parse, or when the mode
  answer has no field. And the loop body, given an error by \<^verbatim>\<open>GetData\<close>, ends the pass
  with \<^verbatim>\<open>lastData\<close> as it was and without a post.
\<close>

theorem C7_mandatory_reads:
  "((\<exists>err. rig_get_vfo rpc = Inl err) \<or>
    (\<exists>vfoA err. rig_get_vfo rpc = Inr vfoA \<and> ParseFloat lib vfoA = Inl err) \<or>
    (\<exists>err. rig_get_mode rpc = Inl err) \<longrightarrow>
      (\<exists>err. FlrigClient_GetData lib rpc = (RigData_zero, Some err))) \<and>
   ((\<exists>err. send_f conn = Some err) \<or> (\<exists>err. read_f conn = Inl err) \<or>
    (\<exists>freqStr err. read_f conn = Inr freqStr \<and> ParseFloat lib freqStr = Inl err) \<or>
    (\<exists>err. send_m conn = Some err) \<or> (\<exists>err. read_m conn = Inl err) \<or>
    (\<exists>modeResp. read_m conn = Inr modeResp \<and> Fields lib modeResp = []) \<longrightarrow>
      (\<exists>err. HamlibClient_GetData lib conn = (RigData_zero, Some err))) \<and>
   (\<forall>err. snd (GetData lib client (radio io)) = Some err \<longrightarrow>
      tick lib config client lastData io = (lastData, ReadFailed err))"
proof -
  have flrig_part: "(\<exists>err. rig_get_vfo rpc = Inl err) \<or>
    (\<exists>vfoA err. rig_get_vfo rpc = Inr vfoA \<and> ParseFloat lib vfoA = Inl err) \<or>
    (\<exists>err. rig_get_mode rpc = Inl err) \<longrightarrow>
      (\<exists>err. FlrigClient_GetData lib rpc = (RigData_zero, Some err))"
    by (auto simp: FlrigClient_GetData_def Let_def split: option.splits sum.splits)
  have hamlib_part: "(\<exists>err. send_f conn = Some err) \<or> (\<exists>err. read_f conn = Inl err) \<or>
    (\<exists>freqStr err. read_f conn = Inr freqStr \<and> ParseFloat lib freqStr = Inl err) \<or>
    (\<exists>err. send_m conn = Some err) \<or> (\<exists>err. read_m conn = Inl err) \<or>
    (\<exists>modeResp. read_m conn = Inr modeResp \<and> Fields lib modeResp = []) \<longrightarrow>
      (\<exists>err. HamlibClient_GetData lib conn = (RigData_zero, Some err))"
    by (auto simp: HamlibClient_GetData_def Let_def split: option.splits sum.splits list.splits)
  have caller: "\<forall>err. snd (GetData lib client (radio io)) = Some err \<longrightarrow>
      tick lib config client lastData io = (lastData, ReadFailed err)"
    by (auto simp: tick_def split: prod.splits)
  from flrig_part hamlib_part caller show ?thesis by blast
qed

text \<open>A frequency of letters from flrig; a mode answer of one space from rigctld.\<close>

theorem C7_witness:
  "FlrigClient_GetData sample_lib (flrig_ok\<lparr>rig_get_vfo := Inr ''abc''\<rparr>) =
     (RigData_zero, Some (Cause ''strconv.ParseFloat: invalid syntax'')) \<and>
   HamlibClient_GetData sample_lib (hamlib_ok\<lparr>read_m := Inr '' ''\<rparr>) =
     (RigData_zero, Some (Cause ''invalid mode response format from hamlib'')) \<and>
   tick sample_lib sample_config (HamlibClient ''127.0.0.1'' 4532) split_off_data
     \<lparr>radio = \<lparr>flrig = flrig_ok, hamlib = hamlib_ok\<lparr>read_m := Inr '' ''\<rparr>\<rparr>, network = net_ok\<rparr> =
     (split_off_data, ReadFailed (Cause ''invalid mode response format from hamlib''))"
  using C7_mandatory_reads [of "flrig_ok\<lparr>rig_get_vfo := Inr ''abc''\<rparr>" sample_lib
     "hamlib_ok\<lparr>read_m := Inr '' ''\<rparr>" "HamlibClient ''127.0.0.1'' 4532"
     "\<lparr>radio = \<lparr>flrig = flrig_ok, hamlib = hamlib_ok\<lparr>read_m := Inr '' ''\<rparr>\<rparr>, network = net_ok\<rparr>"
     sample_config split_off_data]
  by (simp add: FlrigClient_GetData_def HamlibClient_GetData_def GetData_def tick_def
        flrig_ok_def hamlib_ok_def sample_lib_def sample_ParseFloat_def is_digit_def
        digit_value_def)

text \<open>
  Claim C8. For flrig, when the call rig.get_power fails, \<^verbatim>\<open>GetData\<close> returns what it
  returns when the call answers 0, and a snapshot that is returned has power 0. For
  rigctld, when the mandatory reads succeeded and sending \<^verbatim>\<open>P\<close> fails, or reading the
  answer fails, or the answer does not parse, \<^verbatim>\<open>GetData\<close> returns the snapshot with
  power 0 and no error.
\<close>

theorem C8_power_tolerated:
  "((\<exists>err. rig_get_power rpc = Inl err) \<longrightarrow>
      FlrigClient_GetData lib rpc = FlrigClient_GetData lib (rpc\<lparr>rig_get_power := Inr 0\<rparr>) \<and>
      (snd (FlrigClient_GetData lib rpc) = None \<longrightarrow>
         Power (fst (FlrigClient_GetData lib rpc)) = Finite 0)) \<and>
   (Dial conn = None \<and> send_f conn = None \<and> read_f conn = Inr freqStr \<and>
    ParseFloat lib freqStr = Inr freqA \<and> send_m conn = None \<and> read_m conn = Inr modeResp \<and>
    Fields lib modeResp = mode # bandwidth \<and>
    ((\<exists>err. send_P conn = Some err) \<or> (\<exists>err. read_P conn = Inl err) \<or>
     (\<exists>powerStr err. read_P conn = Inr powerStr \<and> ParseFloat lib powerStr = Inl err)) \<longrightarrow>
      HamlibClient_GetData lib conn =
        (\<lparr>FreqVFOA = freqA, FreqVFOB = freqA, Mode = mode, ModeB = mode, Split = 0,
          Power = Finite 0\<rparr>, None))"
proof -
  have flrig_part: "(\<exists>err. rig_get_power rpc = Inl err) \<longrightarrow>
      FlrigClient_GetData lib rpc = FlrigClient_GetData lib (rpc\<lparr>rig_get_power := Inr 0\<rparr>) \<and>
      (snd (FlrigClient_GetData lib rpc) = None \<longrightarrow>
         Power (fst (FlrigClient_GetData lib rpc)) = Finite 0)"
    by (auto simp: FlrigClient_GetData_def Let_def float64_of_int_def
             split: option.splits sum.splits)
  have hamlib_part: "Dial conn = None \<and> send_f conn = None \<and> read_f conn = Inr freqStr \<and>
    ParseFloat lib freqStr = Inr freqA \<and> send_m conn = None \<and> read_m conn = Inr modeResp \<and>
    Fields lib modeResp = mode # bandwidth \<and>
    ((\<exists>err. send_P conn = Some err) \<or> (\<exists>err. read_P conn = Inl err) \<or>
     (\<exists>powerStr err. read_P conn = Inr powerStr \<and> ParseFloat lib powerStr = Inl err)) \<longrightarrow>
      HamlibClient_GetData lib conn =
        (\<lparr>FreqVFOA = freqA, FreqVFOB = freqA, Mode = mode, ModeB = mode, Split = 0,
          Power = Finite 0\<rparr>, None)"
    by (auto simp: HamlibClient_GetData_def Let_def split: option.splits sum.splits)
  from flrig_part hamlib_part show ?thesis by blast
qed

text \<open>A failing rig.get_power; the error report of rigctld in place of a power.\<close>

theorem C8_witness:
  "FlrigClient_GetData sample_lib (flrig_ok\<lparr>rig_get_power := Inl (Cause ''fault'')\<rparr>) =
     (\<lparr>FreqVFOA = Finite 14074000, FreqVFOB = Finite 7100000, Mode = ''USB'', ModeB = ''LSB'',
       Split = 0, Power = Finite 0\<rparr>, None) \<and>
   HamlibClient_GetData sample_lib (hamlib_ok\<lparr>read_P := Inr ''RPRT -11''\<rparr>) =
     (\<lparr>FreqVFOA = Finite 14074000, FreqVFOB = Finite 14074000, Mode = ''USB'', ModeB = ''USB'',
       Split = 0, Power = Finite 0\<rparr>, None)"
  using C8_power_tolerated [of "flrig_ok\<lparr>rig_get_power := Inl (Cause ''fault'')\<rparr>" sample_lib
     "hamlib_ok\<lparr>read_P := Inr ''RPRT -11''\<rparr>" "''14074000''" "Finite 14074000" "''USB 2400''"
     "''USB''" "[''2400'']"]
  by (simp add: FlrigClient_GetData_def HamlibClient_GetData_def
        flrig_ok_def hamlib_ok_def sample_lib_def sample_ParseFloat_def is_digit_def
        digit_value_def float64_of_int_def)

section \<open>The poll loop\<close>

lemma tick_cases:
  "tick lib config client lastData io =
     (case GetData lib client (radio io) of
        (currentData, Some err) \<Rightarrow> (lastData, ReadFailed err)
      | (currentData, None) \<Rightarrow>
          if ChangeGate lastData currentData = Skip then (lastData, Unchanged)
          else (case snd (postToWavelog lib config currentData (network io)) of
                  Some err \<Rightarrow> (lastData, PostFailed currentData err)
                | None \<Rightarrow> (currentData, Posted currentData)))"
  by (simp add: tick_def split: prod.splits option.splits decision.splits)

lemma tick_baseline:
  "fst (tick lib config client lastData io) =
     last_posted lastData [snd (tick lib config client lastData io)]"
  by (simp add: tick_cases split: prod.splits option.splits)

lemma PollLoop_baseline:
  "fst (PollLoop lib config client lastData ios) =
     last_posted lastData (snd (PollLoop lib config client lastData ios))"
proof (induction ios arbitrary: lastData)
  case Nil
  show ?case by simp
next
  case (Cons io ios)
  obtain lastData' out where step: "tick lib config client lastData io = (lastData', out)"
    by (cases "tick lib config client lastData io")
  obtain final outs where rest: "PollLoop lib config client lastData' ios = (final, outs)"
    by (cases "PollLoop lib config client lastData' ios")
  have "lastData' = last_posted lastData [out]"
    using tick_baseline [of lib config client lastData io] step by simp
  moreover have "final = last_posted lastData' outs"
    using Cons.IH [of lastData'] rest by simp
  ultimately have "final = last_posted lastData (out # outs)"
    by (cases out) simp_all
  then show ?case
    by (simp add: step rest)
qed

text \<open>
  Claim C4. In a pass that read a changed snapshot: when the post fails, \<^verbatim>\<open>lastData\<close>
  stays as it was, and when the post succeeds, \<^verbatim>\<open>lastData\<close> becomes the snapshot. A pass
  changes \<^verbatim>\<open>lastData\<close> only by a successful post, to the snapshot posted. After a failed
  post of a snapshot, a later pass that reads the same snapshot against the unchanged
  \<^verbatim>\<open>lastData\<close> posts it again. And after any number of passes from the start,
  \<^verbatim>\<open>lastData\<close> is the snapshot of the latest successful post, or the zero value when
  there was none.
\<close>

theorem C4_baseline:
  "(GetData lib client (radio io) = (currentData, None) \<and>
    ChangeGate lastData currentData = Forward \<longrightarrow>
      (\<forall>err. snd (postToWavelog lib config currentData (network io)) = Some err \<longrightarrow>
         tick lib config client lastData io = (lastData, PostFailed currentData err)) \<and>
      (snd (postToWavelog lib config currentData (network io)) = None \<longrightarrow>
         tick lib config client lastData io = (currentData, Posted currentData))) \<and>
   (fst (tick lib config client lastData io) \<noteq> lastData \<longrightarrow>
      snd (tick lib config client lastData io) =
        Posted (fst (tick lib config client lastData io))) \<and>
   (snd (tick lib config client lastData io) = PostFailed currentData err \<and>
    GetData lib client (radio io') = (currentData, None) \<longrightarrow>
      fst (tick lib config client lastData io) = lastData \<and>
      ((\<exists>err'. tick lib config client lastData io' = (lastData, PostFailed currentData err')) \<or>
       tick lib config client lastData io' = (currentData, Posted currentData))) \<and>
   fst (PollLoop lib config client RigData_zero ios) =
     last_posted RigData_zero (snd (PollLoop lib config client RigData_zero ios))"
proof -
  have post: "GetData lib client (radio io) = (currentData, None) \<and>
    ChangeGate lastData currentData = Forward \<longrightarrow>
      (\<forall>err. snd (postToWavelog lib config currentData (network io)) = Some err \<longrightarrow>
         tick lib config client lastData io = (lastData, PostFailed currentData err)) \<and>
      (snd (postToWavelog lib config currentData (network io)) = None \<longrightarrow>
         tick lib config client lastData io = (currentData, Posted currentData))"
    by (simp add: tick_cases)
  have only_success: "fst (tick lib config client lastData io) \<noteq> lastData \<longrightarrow>
      snd (tick lib config client lastData io) =
        Posted (fst (tick lib config client lastData io))"
    by (simp add: tick_cases split: prod.splits option.splits)
  have retry: "snd (tick lib config client lastData io) = PostFailed currentData err \<and>
    GetData lib client (radio io') = (currentData, None) \<longrightarrow>
      fst (tick lib config client lastData io) = lastData \<and>
      ((\<exists>err'. tick lib config client lastData io' = (lastData, PostFailed currentData err')) \<or>
       tick lib config client lastData io' = (currentData, Posted currentData))"
    by (auto simp: tick_cases split: prod.splits option.splits if_splits)
  show ?thesis
    using post only_success retry PollLoop_baseline [of lib config client RigData_zero ios]
    by blast
qed

text \<open>
  Three passes with the same answers from flrig: the post fails, is made again and
  succeeds, and the third read is unchanged.
\<close>

theorem C4_witness:
  "PollLoop sample_lib sample_config (FlrigClient ''127.0.0.1'' 12345) RigData_zero
     [\<lparr>radio = \<lparr>flrig = flrig_ok, hamlib = hamlib_ok\<rparr>, network = net_down\<rparr>,
      \<lparr>radio = \<lparr>flrig = flrig_ok, hamlib = hamlib_ok\<rparr>, network = net_ok\<rparr>,
      \<lparr>radio = \<lparr>flrig = flrig_ok, hamlib = hamlib_ok\<rparr>, network = net_ok\<rparr>] =
   (\<lparr>FreqVFOA = Finite 14074000, FreqVFOB = Finite 7100000, Mode = ''USB'', ModeB = ''LSB'',
     Split = 0, Power = Finite 50\<rparr>,
    [PostFailed
       \<lparr>FreqVFOA = Finite 14074000, FreqVFOB = Finite 7100000, Mode = ''USB'', ModeB = ''LSB'',
        Split = 0, Power = Finite 50\<rparr>
       (Wrapped ''failed to execute HTTP request'' (Cause ''dial tcp: connection refused'')),
     Posted
       \<lparr>FreqVFOA = Finite 14074000, FreqVFOB = Finite 7100000, Mode = ''USB'', ModeB = ''LSB'',
        Split = 0, Power = Finite 50\<rparr>,
     Unchanged])"
  using C4_baseline [of sample_lib "FlrigClient ''127.0.0.1'' 12345"
     "\<lparr>radio = \<lparr>flrig = flrig_ok, hamlib = hamlib_ok\<rparr>, network = net_down\<rparr>"
     "\<lparr>FreqVFOA = Finite 14074000, FreqVFOB = Finite 7100000, Mode = ''USB'', ModeB = ''LSB'',
        Split = 0, Power = Finite 50\<rparr>" RigData_zero sample_config
     "Wrapped ''failed to execute HTTP request'' (Cause ''dial tcp: connection refused'')"
     "\<lparr>radio = \<lparr>flrig = flrig_ok, hamlib = hamlib_ok\<rparr>, network = net_ok\<rparr>"
     "[\<lparr>radio = \<lparr>flrig = flrig_ok, hamlib = hamlib_ok\<rparr>, network = net_down\<rparr>,
      \<lparr>radio = \<lparr>flrig = flrig_ok, hamlib = hamlib_ok\<rparr>, network = net_ok\<rparr>,
      \<lparr>radio = \<lparr>flrig = flrig_ok, hamlib = hamlib_ok\<rparr>, network = net_ok\<rparr>]"]
  by (simp add: tick_def GetData_def FlrigClient_GetData_def ChangeGate_def RigData_eq_def
        float64_eq_def RigData_zero_def postToWavelog_def Marshal_def payload_of_def go_int_def
        truncate_real_def float64_of_int_def flrig_ok_def net_ok_def net_down_def
        sample_config_def defaultConfig_def sample_lib_def sample_ParseFloat_def is_digit_def
        digit_value_def)

text \<open>
  Claim C6, as the code has it. In the first pass \<^verbatim>\<open>lastData\<close> is the zero-valued
  \<^verbatim>\<open>RigData\<close>, and a snapshot that was read is skipped exactly when it equals that
  value: every other snapshot is posted (the post fails or succeeds), and the
  zero-valued one is not.
\<close>

theorem C6_first_tick:
  assumes "GetData lib client (radio io) = (currentData, None)"
  shows "(ChangeGate RigData_zero currentData = Skip \<longleftrightarrow> currentData = RigData_zero) \<and>
         (currentData \<noteq> RigData_zero \<longrightarrow>
            (\<exists>err. tick lib config client RigData_zero io =
                     (RigData_zero, PostFailed currentData err)) \<or>
            tick lib config client RigData_zero io = (currentData, Posted currentData)) \<and>
         (currentData = RigData_zero \<longrightarrow>
            tick lib config client RigData_zero io = (RigData_zero, Unchanged))"
proof -
  have gate: "ChangeGate RigData_zero currentData = Skip \<longleftrightarrow> currentData = RigData_zero"
    by (auto simp: ChangeGate_def RigData_eq_iff no_NaN_def RigData_zero_def)
  then show ?thesis
    using assms by (auto simp: tick_cases split: option.splits)
qed

text \<open>The first pass with a tuned radio.\<close>

theorem C6_witness:
  "tick sample_lib sample_config (FlrigClient ''127.0.0.1'' 12345) RigData_zero
     \<lparr>radio = \<lparr>flrig = flrig_ok, hamlib = hamlib_ok\<rparr>, network = net_ok\<rparr> =
   (\<lparr>FreqVFOA = Finite 14074000, FreqVFOB = Finite 7100000, Mode = ''USB'', ModeB = ''LSB'',
     Split = 0, Power = Finite 50\<rparr>,
    Posted \<lparr>FreqVFOA = Finite 14074000, FreqVFOB = Finite 7100000, Mode = ''USB'',
            ModeB = ''LSB'', Split = 0, Power = Finite 50\<rparr>)"
  using C6_first_tick [of sample_lib "FlrigClient ''127.0.0.1'' 12345"
     "\<lparr>radio = \<lparr>flrig = flrig_ok, hamlib = hamlib_ok\<rparr>, network = net_ok\<rparr>"
     "\<lparr>FreqVFOA = Finite 14074000, FreqVFOB = Finite 7100000, Mode = ''USB'', ModeB = ''LSB'',
        Split = 0, Power = Finite 50\<rparr>" sample_config]
  by (simp add: tick_def GetData_def FlrigClient_GetData_def ChangeGate_def RigData_eq_def
        float64_eq_def RigData_zero_def postToWavelog_def Marshal_def payload_of_def go_int_def
        truncate_real_def float64_of_int_def flrig_ok_def net_ok_def
        sample_config_def defaultConfig_def sample_lib_def sample_ParseFloat_def is_digit_def
        digit_value_def)

text \<open>
  C6 as stated fails for the snapshot of zeros and empty modes: flrig answers every call,
  the read succeeds, and the first pass skips it.
\<close>

theorem C6_counterexample:
  "GetData sample_lib (FlrigClient ''127.0.0.1'' 12345)
     \<lparr>flrig = flrig_idle, hamlib = hamlib_ok\<rparr> = (RigData_zero, None) \<and>
   tick sample_lib sample_config (FlrigClient ''127.0.0.1'' 12345) RigData_zero
     \<lparr>radio = \<lparr>flrig = flrig_idle, hamlib = hamlib_ok\<rparr>, network = net_ok\<rparr> =
   (RigData_zero, Unchanged)"
  by (simp add: tick_def GetData_def FlrigClient_GetData_def ChangeGate_def RigData_eq_def
        float64_eq_def RigData_zero_def float64_of_int_def flrig_idle_def
        sample_lib_def sample_ParseFloat_def is_digit_def digit_value_def)

section \<open>Validation\<close>

lemma validate_Fatal_iff:
  "(\<exists>msg. validate lib config = Fatal msg) \<longleftrightarrow>
     WavelogKey config = [] \<or> WavelogKey config = ''YOUR_API_KEY'' \<or>
     WavelogURL config = [] \<or>
     (ToLower lib (DataSource config) \<noteq> ''flrig'' \<and>
      ToLower lib (DataSource config) \<noteq> ''hamlib'') \<or>
     (\<exists>err. ParseDuration lib (Interval config) = Inl err)"
  by (auto simp: validate_def defaultConfig_def split: sum.splits)

text \<open>No pass of the loop makes a fatal log call.\<close>

lemma FlrigClient_GetData_log_no_fatal: "FatalLevel \<notin> set (FlrigClient_GetData_log lib rpc)"
  by (simp add: FlrigClient_GetData_log_def split: option.splits sum.splits)

lemma HamlibClient_GetData_log_no_fatal: "FatalLevel \<notin> set (HamlibClient_GetData_log lib conn)"
  by (simp add: HamlibClient_GetData_log_def split: prod.splits option.splits sum.splits)

lemma tick_log_no_fatal:
  "FatalLevel \<notin> set (tick_log lib connection_error config client lastData io)"
  by (simp add: tick_log_def GetData_log_def postToWavelog_log_def
        FlrigClient_GetData_log_no_fatal HamlibClient_GetData_log_no_fatal
        split: RadioClient.splits prod.splits option.splits sum.splits decision.splits)

lemma PollLoop_never_fatal:
  "\<not> PollLoop_fatal lib connection_error config client lastData ios"
  by (induction ios arbitrary: lastData) (simp_all add: tick_log_no_fatal)

text \<open>A run with neither profile command is the validation followed by the loop.\<close>

lemma main_after_merge_polling_run:
  assumes "setDefaultProfileName cmd = []" and "saveProfileName cmd = []"
  shows "main_after_merge lib connection_error cfgFile cmd config ios =
     (case validate lib config of
        Fatal msg \<Rightarrow> Fatal_exit msg
      | Polling client intervalDuration \<Rightarrow>
          Running (fst (PollLoop lib config client RigData_zero ios))
                  (snd (PollLoop lib config client RigData_zero ios)))"
  using assms
  by (simp add: main_after_merge_def PollLoop_never_fatal split: startup.splits prod.splits)

text \<open>
  Claim C9, as the code has it. In a run with neither \<^verbatim>\<open>-set-default-profile\<close> nor
  \<^verbatim>\<open>-save-profile\<close>, the process exits fatally between the merge and the loop
  exactly when the key is empty or the placeholder \<^verbatim>\<open>YOUR_API_KEY\<close>, or the URL is
  empty, or the data source, in lower case, is neither \<^verbatim>\<open>flrig\<close> nor
  \<^verbatim>\<open>hamlib\<close>, or the interval does not parse; otherwise it is in the loop after any
  passes. With one of the two flags the loop is never entered. And no pass of the loop
  makes a fatal log call, whatever the radio and the network do, so the process never
  exits from the loop.
\<close>

theorem C9_fatal_iff:
  "(setDefaultProfileName cmd = [] \<and> saveProfileName cmd = [] \<longrightarrow>
      ((\<exists>msg. main_after_merge lib connection_error cfgFile cmd config ios = Fatal_exit msg) \<longleftrightarrow>
         WavelogKey config = [] \<or> WavelogKey config = ''YOUR_API_KEY'' \<or>
         WavelogURL config = [] \<or>
         (ToLower lib (DataSource config) \<noteq> ''flrig'' \<and>
          ToLower lib (DataSource config) \<noteq> ''hamlib'') \<or>
         (\<exists>err. ParseDuration lib (Interval config) = Inl err)) \<and>
      ((\<exists>msg. main_after_merge lib connection_error cfgFile cmd config ios = Fatal_exit msg) \<or>
       (\<exists>lastData outs.
          main_after_merge lib connection_error cfgFile cmd config ios = Running lastData outs))) \<and>
   (setDefaultProfileName cmd \<noteq> [] \<or> saveProfileName cmd \<noteq> [] \<longrightarrow>
      (\<forall>lastData outs.
         main_after_merge lib connection_error cfgFile cmd config ios \<noteq> Running lastData outs)) \<and>
   FatalLevel \<notin> set (tick_log lib connection_error config client lastData io) \<and>
   main_after_merge lib connection_error cfgFile cmd config ios \<noteq> Loop_exit"
proof -
  have run: "setDefaultProfileName cmd = [] \<and> saveProfileName cmd = [] \<longrightarrow>
      ((\<exists>msg. main_after_merge lib connection_error cfgFile cmd config ios = Fatal_exit msg) \<longleftrightarrow>
         (\<exists>msg. validate lib config = Fatal msg)) \<and>
      ((\<exists>msg. main_after_merge lib connection_error cfgFile cmd config ios = Fatal_exit msg) \<or>
       (\<exists>lastData outs.
          main_after_merge lib connection_error cfgFile cmd config ios = Running lastData outs))"
    by (auto simp: main_after_merge_polling_run split: startup.splits)
  have commands: "setDefaultProfileName cmd \<noteq> [] \<or> saveProfileName cmd \<noteq> [] \<longrightarrow>
      (\<forall>lastData outs.
         main_after_merge lib connection_error cfgFile cmd config ios \<noteq> Running lastData outs)"
    by (auto simp: main_after_merge_def split: option.splits)
  have no_loop_exit: "main_after_merge lib connection_error cfgFile cmd config ios \<noteq> Loop_exit"
    by (auto simp: main_after_merge_def PollLoop_never_fatal
             split: option.splits startup.splits prod.splits)
  show ?thesis
    using run commands no_loop_exit validate_Fatal_iff [of lib config]
      tick_log_no_fatal [of lib connection_error config client lastData io]
    by blast
qed

text \<open>
  The defaults stop at the key; an interval that does not parse stops; a data source
  in capitals passes; a refused connection is logged as an error and leaves the process
  running.
\<close>

theorem C9_witness:
  "main_after_merge sample_lib (\<lambda>err. False) (cfgFile_of (Document saved_doc)) no_commands
     defaultConfig [] = Fatal_exit ''Fatal: Wavelog API key is required.'' \<and>
   main_after_merge sample_lib (\<lambda>err. False) (cfgFile_of (Document saved_doc)) no_commands
     (sample_config\<lparr>Interval := ''soon''\<rparr>) [] =
     Fatal_exit ''Fatal: Invalid interval duration format.'' \<and>
   main_after_merge sample_lib (\<lambda>err. False) (cfgFile_of (Document saved_doc)) no_commands
     (sample_config\<lparr>DataSource := ''Hamlib''\<rparr>) [] = Running RigData_zero [] \<and>
   main_after_merge sample_lib (\<lambda>err. False) (cfgFile_of (Document saved_doc)) no_commands
     sample_config
     [\<lparr>radio = \<lparr>flrig = flrig_ok\<lparr>rig_get_vfo := Inl (Cause ''connection refused'')\<rparr>,
               hamlib = hamlib_ok\<rparr>, network = net_down\<rparr>] =
     Running RigData_zero
       [ReadFailed (Wrapped ''call failed to rig.get_vfo'' (Cause ''connection refused''))] \<and>
   tick_log sample_lib (\<lambda>err. False) sample_config (FlrigClient ''127.0.0.1'' 12345)
     RigData_zero
     \<lparr>radio = \<lparr>flrig = flrig_ok\<lparr>rig_get_vfo := Inl (Cause ''connection refused'')\<rparr>,
               hamlib = hamlib_ok\<rparr>, network = net_down\<rparr> = [ErrorLevel]"
proof -
  have key: "\<exists>msg. main_after_merge sample_lib (\<lambda>err. False) (cfgFile_of (Document saved_doc))
      no_commands defaultConfig [] = Fatal_exit msg"
    using C9_fatal_iff [of no_commands sample_lib "\<lambda>err. False"
        "cfgFile_of (Document saved_doc)" defaultConfig "[]"]
    by (simp add: no_commands_def defaultConfig_def)
  have evaluated: "main_after_merge sample_lib (\<lambda>err. False) (cfgFile_of (Document saved_doc))
      no_commands defaultConfig [] = Fatal_exit ''Fatal: Wavelog API key is required.''"
    by (simp add: main_after_merge_def no_commands_def validate_def defaultConfig_def)
  have rest: "main_after_merge sample_lib (\<lambda>err. False) (cfgFile_of (Document saved_doc)) no_commands
     (sample_config\<lparr>Interval := ''soon''\<rparr>) [] =
     Fatal_exit ''Fatal: Invalid interval duration format.'' \<and>
   main_after_merge sample_lib (\<lambda>err. False) (cfgFile_of (Document saved_doc)) no_commands
     (sample_config\<lparr>DataSource := ''Hamlib''\<rparr>) [] = Running RigData_zero [] \<and>
   main_after_merge sample_lib (\<lambda>err. False) (cfgFile_of (Document saved_doc)) no_commands
     sample_config
     [\<lparr>radio = \<lparr>flrig = flrig_ok\<lparr>rig_get_vfo := Inl (Cause ''connection refused'')\<rparr>,
               hamlib = hamlib_ok\<rparr>, network = net_down\<rparr>] =
     Running RigData_zero
       [ReadFailed (Wrapped ''call failed to rig.get_vfo'' (Cause ''connection refused''))] \<and>
   tick_log sample_lib (\<lambda>err. False) sample_config (FlrigClient ''127.0.0.1'' 12345)
     RigData_zero
     \<lparr>radio = \<lparr>flrig = flrig_ok\<lparr>rig_get_vfo := Inl (Cause ''connection refused'')\<rparr>,
               hamlib = hamlib_ok\<rparr>, network = net_down\<rparr> = [ErrorLevel]"
    by (simp add: main_after_merge_def no_commands_def validate_def tick_def tick_log_def
          GetData_def GetData_log_def FlrigClient_GetData_def FlrigClient_GetData_log_def
          flrig_ok_def sample_config_def defaultConfig_def sample_lib_def sample_ToLower_def
          sample_ParseDuration_def)
  from key evaluated rest show ?thesis by simp
qed

text \<open>
  C9 as stated fails in both directions once a profile command is given. With a stored
  configuration that passes the validation, \<^verbatim>\<open>-set-default-profile\<close> naming a
  profile that does not exist exits fatally (line 416). With no configuration file and
  the placeholder key, \<^verbatim>\<open>-save-profile\<close> saves and returns normally.
\<close>

theorem C9_counterexample:
  "validate sample_lib (currentProfileConfig (Document saved_doc) [] no_flags) =
     Polling (FlrigClient ''127.0.0.1'' 12345) 1500000000 \<and>
   main_after_merge sample_lib (\<lambda>err. False) (cfgFile_of (Document saved_doc))
     \<lparr>setDefaultProfileName = ''nosuch'', saveProfileName = [], Profiles_nil = False,
      saveConfig = None\<rparr>
     (currentProfileConfig (Document saved_doc) [] no_flags) [] =
     Fatal_exit ''Fatal: Cannot set default profile. Profile does not exist.'' \<and>
   currentProfileConfig (ReadFile_error (Cause ''no such file or directory'')) [] no_flags =
     defaultConfig \<and>
   main_after_merge sample_lib (\<lambda>err. False)
     (cfgFile_of (ReadFile_error (Cause ''no such file or directory'')))
     \<lparr>setDefaultProfileName = [], saveProfileName = ''x'', Profiles_nil = False,
      saveConfig = None\<rparr>
     (currentProfileConfig (ReadFile_error (Cause ''no such file or directory'')) [] no_flags) [] =
     Returned ''Configuration saved successfully.''"
  by (simp add: main_after_merge_def validate_def currentProfileConfig_def cfgFile_of_def
        loadConfig_def unmarshal_config_def unmarshal_profile_def profileToUse_def
        apply_flags_def saved_doc_def saved_record_def no_flags_def defaultConfig_def
        sample_lib_def sample_ToLower_def sample_ParseDuration_def)

section \<open>The configuration merge\<close>

lemma as_coded_None:
  "as_coded override None member zero dflt = (case override of None \<Rightarrow> dflt | Some v \<Rightarrow> v)"
  by (simp add: as_coded_def split: option.splits)

lemma as_coded_Some:
  "as_coded override (Some j) member zero dflt =
     (case override of
        None \<Rightarrow> (case member j of None \<Rightarrow> zero | Some v \<Rightarrow> v)
      | Some v \<Rightarrow> v)"
  by (simp add: as_coded_def split: option.splits)

lemma coded_merge_None: "coded_merge None fl = apply_flags fl defaultConfig"
  by (simp add: coded_merge_def apply_flags_def as_coded_None)

lemma coded_merge_Some: "coded_merge (Some j) fl = apply_flags fl (unmarshal_profile j)"
  by (simp add: coded_merge_def apply_flags_def as_coded_Some unmarshal_profile_def
        cong: option.case_cong)

lemma currentProfileConfig_coded:
  "currentProfileConfig disk currentProfileName fl =
     coded_merge (stored_record disk currentProfileName) fl"
proof (cases disk)
  case (ReadFile_error err)
  then show ?thesis
    by (simp add: currentProfileConfig_def stored_record_def cfgFile_of_def loadConfig_def
          coded_merge_None)
next
  case (Unmarshal_error err)
  then show ?thesis
    by (simp add: currentProfileConfig_def stored_record_def cfgFile_of_def loadConfig_def
          coded_merge_None)
next
  case (Document doc)
  show ?thesis
  proof (cases "profiles doc (profileToUse (unmarshal_config doc) currentProfileName)")
    case None
    with Document show ?thesis
      by (simp add: currentProfileConfig_def stored_record_def cfgFile_of_def loadConfig_def
            unmarshal_config_def coded_merge_None)
  next
    case (Some j)
    with Document show ?thesis
      by (simp add: currentProfileConfig_def stored_record_def cfgFile_of_def loadConfig_def
            unmarshal_config_def coded_merge_Some)
  qed
qed

lemma as_coded_layered:
  "(case stored of None \<Rightarrow> True | Some j \<Rightarrow> member j \<noteq> None) \<Longrightarrow>
     as_coded override stored member zero dflt = layered override (Option.bind stored member) dflt"
  by (auto simp: as_coded_def layered_def split: option.splits)

lemma coded_merge_spec:
  "(case stored of None \<Rightarrow> True | Some j \<Rightarrow> complete j) \<Longrightarrow>
     coded_merge stored fl = spec_merge defaultConfig stored fl"
  unfolding coded_merge_def spec_merge_def
  by (cases stored) (simp_all add: complete_def as_coded_layered)

text \<open>
  Claim C3, as the code has it. Each setting of the merged configuration is the
  override when its flag was set; else, when a record is stored under the selected name,
  the record's member, or the zero value of the type (empty text, 0) when the record
  lacks the member; else the built-in default. With no stored record the result is the
  defaults with the overrides applied. When the stored record gives every setting, or
  none is stored, the result is the three-layer merge of the specification.
\<close>

theorem C3_config_merge:
  "currentProfileConfig disk currentProfileName fl =
     coded_merge (stored_record disk currentProfileName) fl \<and>
   (stored_record disk currentProfileName = None \<longrightarrow>
      currentProfileConfig disk currentProfileName fl = apply_flags fl defaultConfig) \<and>
   ((case stored_record disk currentProfileName of None \<Rightarrow> True | Some j \<Rightarrow> complete j) \<longrightarrow>
      currentProfileConfig disk currentProfileName fl =
        spec_merge defaultConfig (stored_record disk currentProfileName) fl)"
proof -
  have none: "stored_record disk currentProfileName = None \<longrightarrow>
      coded_merge (stored_record disk currentProfileName) fl = apply_flags fl defaultConfig"
    by (simp add: coded_merge_None)
  show ?thesis
    using none coded_merge_spec [of "stored_record disk currentProfileName" fl]
    by (simp add: currentProfileConfig_coded)
qed

text \<open>
  A stored record with a real key and an override of the radio name; and a profile
  name under which nothing is stored.
\<close>

theorem C3_witness:
  "currentProfileConfig (Document saved_doc) [] (no_flags\<lparr>flag_radio_name := Some ''FT-891''\<rparr>) =
     \<lparr>WavelogURL = ''https://mywavelog.com/index.php'', WavelogKey = ''abc123'',
      RadioName = ''FT-891'', FlrigHost = ''127.0.0.1'', FlrigPort = 12345,
      HamlibHost = ''127.0.0.1'', HamlibPort = 4532, Interval = ''1500ms'',
      DataSource = ''flrig'', LogLevel = ''info''\<rparr> \<and>
   currentProfileConfig (Document saved_doc) ''portable'' no_flags = defaultConfig"
proof -
  have none: "stored_record (Document saved_doc) ''portable'' = None"
    by (simp add: stored_record_def cfgFile_of_def loadConfig_def unmarshal_config_def
          profileToUse_def saved_doc_def)
  have "currentProfileConfig (Document saved_doc) ''portable'' no_flags =
          apply_flags no_flags defaultConfig"
    using C3_config_merge [of "Document saved_doc" "''portable''" no_flags] none by blast
  then have absent: "currentProfileConfig (Document saved_doc) ''portable'' no_flags =
          defaultConfig"
    by (simp add: apply_flags_def no_flags_def defaultConfig_def)
  have stored: "currentProfileConfig (Document saved_doc) []
          (no_flags\<lparr>flag_radio_name := Some ''FT-891''\<rparr>) =
     \<lparr>WavelogURL = ''https://mywavelog.com/index.php'', WavelogKey = ''abc123'',
      RadioName = ''FT-891'', FlrigHost = ''127.0.0.1'', FlrigPort = 12345,
      HamlibHost = ''127.0.0.1'', HamlibPort = 4532, Interval = ''1500ms'',
      DataSource = ''flrig'', LogLevel = ''info''\<rparr>"
    by (simp add: currentProfileConfig_def cfgFile_of_def loadConfig_def unmarshal_config_def
          unmarshal_profile_def profileToUse_def apply_flags_def saved_doc_def
          saved_record_def no_flags_def)
  from stored absent show ?thesis by simp
qed

text \<open>
  C3 as stated fails for a stored record that gives the key only: the settings it lacks
  come out empty or 0, where the layered merge of the specification keeps the defaults.
\<close>

theorem C3_counterexample:
  "currentProfileConfig (Document key_only_doc) [] no_flags =
     \<lparr>WavelogURL = [], WavelogKey = ''abc123'', RadioName = [], FlrigHost = [],
      FlrigPort = 0, HamlibHost = [], HamlibPort = 0, Interval = [], DataSource = [],
      LogLevel = []\<rparr> \<and>
   spec_merge defaultConfig (stored_record (Document key_only_doc) []) no_flags =
     defaultConfig\<lparr>WavelogKey := ''abc123''\<rparr>"
  by (simp add: currentProfileConfig_def cfgFile_of_def loadConfig_def unmarshal_config_def
        unmarshal_profile_def profileToUse_def apply_flags_def key_only_doc_def
        key_only_record_def no_flags_def defaultConfig_def spec_merge_def layered_def
        stored_record_def)

end
